theory Spec2Isabelle
  imports Main "HOL-Library.Multiset" "HOL-Library.Product_Lexorder"
begin

section \<open>Column store chunks of the T-tree cache (tcache.c)\<close>

text \<open>
  An item pointer is a pair of a block number and an offset number; PostgreSQL's
  \<open>ItemPointerCompare\<close> orders item pointers by block first and by offset second and
  answers with a negative number, zero or a positive number. Block numbers are 32-bit
  and offsets 16-bit unsigned integers; the functions below only compare and copy
  them, so they are natural numbers here.
\<close>

type_synonym BlockNumber = nat
type_synonym OffsetNumber = nat
type_synonym ItemPointerData = "BlockNumber \<times> OffsetNumber"
type_synonym TransactionId = nat

definition ItemPointerGetBlockNumber :: "ItemPointerData \<Rightarrow> BlockNumber" where
  "ItemPointerGetBlockNumber ip = fst ip"

definition ItemPointerGetOffsetNumber :: "ItemPointerData \<Rightarrow> OffsetNumber" where
  "ItemPointerGetOffsetNumber ip = snd ip"

definition ItemPointerCompare :: "ItemPointerData \<Rightarrow> ItemPointerData \<Rightarrow> int" where
  "ItemPointerCompare a b =
     (if fst a < fst b then - 1
      else if fst b < fst a then 1
      else if snd a < snd b then - 1
      else if snd b < snd a then 1
      else 0)"



definition FirstNormalTransactionId :: TransactionId where
  "FirstNormalTransactionId = 3"

definition FrozenTransactionId :: TransactionId where
  "FrozenTransactionId = 2"

text \<open>
  A \<open>tcache_column_store\<close> keeps, for row number \<open>i\<close>, the item pointer \<open>ctids[i]\<close>, the
  tuple header \<open>theads[i]\<close> and one value (with its null bit) per cached column. The
  functions that search, sort and merge a chunk move the entries of one row number
  together, so a row is one record here: its item pointer, the raw xmax of its header,
  and the rest of the header with the column values as \<open>r_cdata\<close>, which is spelled out
  further below for the functions that rebuild a chunk column by column. The list
  \<open>rows\<close> holds the entries \<open>0 ..< nrows\<close> of the arrays; \<open>nrows\<close> is its length.
\<close>

record 'v tc_row =
  r_ctid :: ItemPointerData
  r_xmax :: TransactionId
  r_cdata :: 'v

record 'v tcache_column_store =
  rows :: "'v tc_row list"
  njunks :: nat
  is_sorted :: bool
  blkno_min :: BlockNumber
  blkno_max :: BlockNumber

definition nrows :: "('v, 'z) tcache_column_store_scheme \<Rightarrow> nat" where
  "nrows tcs = length (rows tcs)"

definition row_blkno :: "'v tc_row \<Rightarrow> BlockNumber" where
  "row_blkno r = ItemPointerGetBlockNumber (r_ctid r)"

text \<open>The chunk invariant: every row's block lies in \<open>[blkno_min, blkno_max]\<close>.\<close>

definition rows_in_range :: "('v, 'z) tcache_column_store_scheme \<Rightarrow> bool" where
  "rows_in_range tcs =
     list_all (\<lambda>r. blkno_min tcs \<le> row_blkno r \<and> row_blkno r \<le> blkno_max tcs) (rows tcs)"

subsection \<open>Merging two chunks: \<open>do_try_merge_tcnode\<close>\<close>

text \<open>
  The first argument is \<open>NUM_ROWS_PER_COLSTORE\<close>, the fixed capacity of a chunk (its
  definition is in a header file). The result is the answer of the function and the
  destination chunk \<open>tc_parent->tcs\<close> as it stands afterwards.
\<close>

definition do_try_merge_tcnode ::
  "nat \<Rightarrow> 'v tcache_column_store \<Rightarrow> 'v tcache_column_store
     \<Rightarrow> bool \<times> 'v tcache_column_store" where
  "do_try_merge_tcnode NUM_ROWS_PER_COLSTORE tcs_dst tcs_src =
     (if nrows tcs_dst < NUM_ROWS_PER_COLSTORE div 2 \<and>
         nrows tcs_src < NUM_ROWS_PER_COLSTORE div 2 \<and>
         nrows tcs_dst + nrows tcs_src < (2 * NUM_ROWS_PER_COLSTORE) div 3
      then (True,
            tcs_dst\<lparr>rows := rows tcs_dst @ rows tcs_src,
                    njunks := njunks tcs_dst + njunks tcs_src,
                    blkno_max := max (blkno_max tcs_dst) (blkno_max tcs_src),
                    blkno_min := max (blkno_min tcs_dst) (blkno_min tcs_src)\<rparr>)
      else (False, tcs_dst))"

subsection \<open>Searching one chunk: \<open>tcache_find_next_record\<close>\<close>






section \<open>The T-tree of chunks (tcache.c)\<close>

text \<open>
  A \<open>tcache_node\<close> owns one chunk and has a left and a right child; \<open>TcNull\<close> is the
  NULL pointer. \<open>tn_addr\<close> names the node (its address), which is what the free list
  of the cache head links. \<open>tn_tcs\<close> is NULL once the node has been released.
  What C leaves undefined is an error value of the model: dereferencing NULL, following
  a pointer or an offset to nothing, writing past the end of a buffer. Running out of
  shared memory is the error the source raises with \<open>elog(ERROR, ...)\<close>.
\<close>

datatype error = NullPointerDereference | InvalidPointer | BufferOverrun | OutOfSharedMemory

datatype 'v tcache_node =
    TcNull
  | TcNode (tn_addr: nat) (tn_left: "'v tcache_node")
      (tn_tcs: "'v tcache_column_store option") (tn_right: "'v tcache_node")

subsection \<open>Range lookup: \<open>tcache_find_next_internal\<close>, \<open>tcache_find_prev_internal\<close>\<close>





subsection \<open>Example data\<close>

text \<open>
  The row with a given item pointer and raw xmax (and no further data), and the sorted
  chunk that holds one such row, at offset 1 of its block with xmax 100.
\<close>

definition row_at :: "BlockNumber \<Rightarrow> OffsetNumber \<Rightarrow> TransactionId \<Rightarrow> unit tc_row" where
  "row_at b off x = \<lparr>r_ctid = (b, off), r_xmax = x, r_cdata = ()\<rparr>"

definition chunk_of_block :: "BlockNumber \<Rightarrow> unit tcache_column_store" where
  "chunk_of_block b =
     \<lparr>rows = [row_at b 1 100], njunks = 0, is_sorted = True, blkno_min = b, blkno_max = b\<rparr>"

section \<open>Toast buffers (tcache.c)\<close>

text \<open>
  \<open>MAXALIGN\<close> rounds a length up to the next multiple of \<open>MAXIMUM_ALIGNOF\<close>, 8 on the
  64-bit platforms.
\<close>

definition MAXALIGN :: "nat \<Rightarrow> nat" where
  "MAXALIGN len = ((len + 7) div 8) * 8"

text \<open>
  A toast buffer: its length in bytes, the offset of the first unused byte, the junk
  counter, and the variable-length values stored so far, each under the offset (from
  the start of the buffer) it was copied to. A value is the list of its bytes;
  \<open>VARSIZE\<close> is the length of the list.
\<close>

record tcache_toastbuf =
  tbuf_length :: nat
  tbuf_usage :: nat
  tbuf_junk :: nat
  tbuf_data :: "(nat \<times> nat list) list"

text \<open>
  Three things the toast code uses are declared outside the sources at hand and are
  parameters here: \<open>pgstrom_shmem_alloc_alap\<close>, which allocates at least the required
  length and reports the allocated length (or yields NULL), the constant
  \<open>TCACHE_TOASTBUF_INITSIZE\<close>, and \<open>offsetof(tcache_toastbuf, data[0])\<close>.
\<close>

record toast_params =
  shmem_alloc_alap :: "nat \<Rightarrow> nat option"
  TCACHE_TOASTBUF_INITSIZE :: nat
  toastbuf_data_offset :: nat

definition tcache_create_toast_buffer ::
  "toast_params \<Rightarrow> nat \<Rightarrow> error + tcache_toastbuf" where
  "tcache_create_toast_buffer P required =
     (case shmem_alloc_alap P (max required (TCACHE_TOASTBUF_INITSIZE P)) of
        None \<Rightarrow> Inl OutOfSharedMemory
      | Some allocated \<Rightarrow>
          Inr \<lparr>tbuf_length = allocated, tbuf_usage = toastbuf_data_offset P,
               tbuf_junk = 0, tbuf_data = []\<rparr>)"

text \<open>The copy of the used part: the values stored below \<open>tbuf_usage\<close>.\<close>

definition toast_used_prefix :: "tcache_toastbuf \<Rightarrow> (nat \<times> nat list) list" where
  "toast_used_prefix tbuf = filter (\<lambda>e. fst e < tbuf_usage tbuf) (tbuf_data tbuf)"

definition tcache_duplicate_toast_buffer ::
  "toast_params \<Rightarrow> tcache_toastbuf \<Rightarrow> nat \<Rightarrow> error + tcache_toastbuf" where
  "tcache_duplicate_toast_buffer P tbuf_old required =
     (case tcache_create_toast_buffer P required of
        Inl e \<Rightarrow> Inl e
      | Inr tbuf_new \<Rightarrow>
          Inr (tbuf_new\<lparr>tbuf_data := toast_used_prefix tbuf_old,
                        tbuf_usage := tbuf_usage tbuf_old,
                        tbuf_junk := tbuf_junk tbuf_old\<rparr>))"

text \<open>
  The copy of one value to the end of the used part, as both callers write it:
  \<open>memcpy\<close> of \<open>vsize\<close> bytes to offset \<open>tbuf_usage\<close>, then \<open>tbuf_usage += MAXALIGN(vsize)\<close>.
  A copy that would end beyond \<open>tbuf_length\<close> writes past the buffer. The result is the
  offset of the value and the buffer.
\<close>

definition toast_copy_in ::
  "tcache_toastbuf \<Rightarrow> nat list \<Rightarrow> error + (nat \<times> tcache_toastbuf)" where
  "toast_copy_in tbuf datum =
     (if tbuf_length tbuf < tbuf_usage tbuf + length datum then Inl BufferOverrun
      else Inr (tbuf_usage tbuf,
                tbuf\<lparr>tbuf_data := tbuf_data tbuf @ [(tbuf_usage tbuf, datum)],
                     tbuf_usage := tbuf_usage tbuf + MAXALIGN (length datum)\<rparr>))"

text \<open>
  The condition of the assertion that \<open>do_insert_tuple\<close> makes right before the copy.
\<close>

definition toast_room_asserted :: "tcache_toastbuf \<Rightarrow> nat \<Rightarrow> bool" where
  "toast_room_asserted tbuf vsize = (tbuf_usage tbuf + MAXALIGN vsize < tbuf_length tbuf)"

text \<open>
  The branch of \<open>do_insert_tuple\<close> for a variable-length column: the toast buffer of the
  column and the value to store. The result is the offset written to the values array
  and the buffer the column refers to afterwards.
\<close>

definition do_insert_tuple_varlena ::
  "toast_params \<Rightarrow> tcache_toastbuf \<Rightarrow> nat list \<Rightarrow> error + (nat \<times> tcache_toastbuf)" where
  "do_insert_tuple_varlena P tbuf datum =
     (let vsize = length datum
      in if tbuf_usage tbuf + MAXALIGN vsize < tbuf_length tbuf
         then (case tcache_create_toast_buffer P (2 * tbuf_length tbuf) of
                 Inl e \<Rightarrow> Inl e
               | Inr tbuf_new \<Rightarrow>
                   toast_copy_in
                     (tbuf_new\<lparr>tbuf_data := toast_used_prefix tbuf,
                               tbuf_usage := tbuf_usage tbuf,
                               tbuf_junk := tbuf_junk tbuf\<rparr>) datum)
         else toast_copy_in tbuf datum)"

text \<open>
  \<open>tcache_copy_cs_varlena\<close> for one column: the destination buffer, the source buffer and
  the source offsets of the \<open>nitems\<close> rows to copy; offset 0 stands for no value. The
  result is the list of destination offsets and the destination buffer.
\<close>

fun tcache_copy_cs_varlena ::
  "toast_params \<Rightarrow> tcache_toastbuf \<Rightarrow> tcache_toastbuf \<Rightarrow> nat list
     \<Rightarrow> error + (nat list \<times> tcache_toastbuf)" where
  "tcache_copy_cs_varlena P tbuf_dst tbuf_src [] = Inr ([], tbuf_dst)"
| "tcache_copy_cs_varlena P tbuf_dst tbuf_src (src_ofs # rest) =
     (if src_ofs = 0
      then (case tcache_copy_cs_varlena P tbuf_dst tbuf_src rest of
              Inl e \<Rightarrow> Inl e
            | Inr (dst_ofs, tbuf) \<Rightarrow> Inr (0 # dst_ofs, tbuf))
      else (case map_of (tbuf_data tbuf_src) src_ofs of
              None \<Rightarrow> Inl InvalidPointer
            | Some datum \<Rightarrow>
               (case (if tbuf_usage tbuf_dst + MAXALIGN (length datum) < tbuf_length tbuf_dst
                      then tcache_duplicate_toast_buffer P tbuf_dst (2 * tbuf_length tbuf_dst)
                      else Inr tbuf_dst) of
                  Inl e \<Rightarrow> Inl e
                | Inr tbuf1 \<Rightarrow>
                   (case toast_copy_in tbuf1 datum of
                      Inl e \<Rightarrow> Inl e
                    | Inr (vpos, tbuf2) \<Rightarrow>
                       (case tcache_copy_cs_varlena P tbuf2 tbuf_src rest of
                          Inl e \<Rightarrow> Inl e
                        | Inr (dst_ofs, tbuf) \<Rightarrow> Inr (vpos # dst_ofs, tbuf))))))"

section \<open>Column stores with their column data (tcache.c)\<close>

text \<open>
  The functions that rebuild a chunk, \<open>tcache_compaction_tcnode\<close> and
  \<open>tcache_split_tcnode\<close>, work column by column and allocate shared memory, so they need
  more of the chunk than its rows as opaque values. Of the cache head they read the
  description of the cached columns: \<open>tc_head->tupdesc->attrs[tc_head->i_cached[k]]\<close>
  for \<open>k < ncols\<close>, here the list of these attributes, each with its \<open>attlen\<close> (positive
  for a fixed-length column) and \<open>attnotnull\<close>.
\<close>

record Form_pg_attribute =
  attlen :: int
  attnotnull :: bool

text \<open>
  The entry of row \<open>i\<close> in \<open>cdata[k]\<close>: the bit \<open>i\<close> of the null map \<open>cdata[k].isnull\<close>
  (the column store allocates a null map exactly for the columns without \<open>attnotnull\<close>;
  the flag is \<open>False\<close> for a column that has none) and the entry \<open>i\<close> of the array
  \<open>cdata[k].values\<close>, which is the value itself for a fixed-length column and, for a
  variable-length column, the \<open>cl_uint\<close> offset of the value in the toast buffer of the
  column, zero for no value. The \<open>r_cdata\<close> of a row is the list of its entries, one
  for each of the \<open>ncols\<close> columns. Of the tuple header the row keeps the raw xmax.
\<close>

record cs_datum =
  d_isnull :: bool
  d_value :: nat

text \<open>
  The column store with \<open>cdata[k].toast\<close>, the toast buffer of each column (NULL as long
  as the column has none); \<open>ncols\<close> is the number of entries of \<open>cdata\<close>.
\<close>

record tcache_column_store_cdata = "cs_datum list tcache_column_store" +
  cdata_toast :: "tcache_toastbuf option list"

definition ncols :: "tcache_column_store_cdata \<Rightarrow> nat" where
  "ncols tcs = length (cdata_toast tcs)"

text \<open>
  Shared memory. \<open>pgstrom_shmem_alloc\<close> is called by \<open>tcache_create_column_store\<close>, with a
  length computed from the column description and \<open>NUM_ROWS_PER_COLSTORE\<close>, and by
  \<open>tcache_alloc_tcnode\<close>, with \<open>SHMEM_BLOCKSZ - sizeof(cl_uint)\<close> for a block of tree
  nodes. Both lengths depend on declarations outside the sources at hand, so the outcome
  of either request is a parameter: whether the column store is allocated, and the nodes
  (their addresses) that a freshly allocated block of nodes holds, or NULL. The
  parameters of the toast buffers are those of the section above.
\<close>

record shmem_params =
  shmem_toast :: toast_params
  shmem_alloc_column_store :: bool
  shmem_alloc_node_block :: "nat list option"

text \<open>
  \<open>tcache_create_column_store\<close> raises \<open>out of shared memory\<close> when the allocation
  fails. Otherwise it clears the header of the block (no rows, no junk, not sorted,
  both block numbers zero) and sets \<open>cdata[i].toast = NULL\<close> for every column.
\<close>

definition tcache_create_column_store ::
  "shmem_params \<Rightarrow> Form_pg_attribute list \<Rightarrow> error + tcache_column_store_cdata" where
  "tcache_create_column_store S attrs =
     (if shmem_alloc_column_store S
      then Inr \<lparr>rows = [], njunks = 0, is_sorted = False, blkno_min = 0, blkno_max = 0,
                cdata_toast = map (\<lambda>attr. None) attrs\<rparr>
      else Inl OutOfSharedMemory)"

text \<open>A \<open>for\<close> loop whose body may raise an error: the body runs on each element in turn.\<close>

fun for_each :: "('a \<Rightarrow> 's \<Rightarrow> error + 's) \<Rightarrow> 'a list \<Rightarrow> 's \<Rightarrow> error + 's" where
  "for_each body [] s = Inr s"
| "for_each body (x # xs) s =
     (case body x s of
        Inl e \<Rightarrow> Inl e
      | Inr s' \<Rightarrow> for_each body xs s')"

text \<open>
  The loop \<open>assign a toast buffer first\<close>, which compaction and split both run on the
  new chunk: column \<open>i\<close> gets a fresh toast buffer of the length of the old one when the
  old chunk has a toast buffer for the column.
\<close>

definition assign_toast_buffer ::
  "toast_params \<Rightarrow> tcache_column_store_cdata \<Rightarrow> nat \<Rightarrow> tcache_column_store_cdata
     \<Rightarrow> error + tcache_column_store_cdata" where
  "assign_toast_buffer P tcs_old i tcs_new =
     (case cdata_toast tcs_old ! i of
        None \<Rightarrow> Inr tcs_new
      | Some toast \<Rightarrow>
         (case tcache_create_toast_buffer P (tbuf_length toast) of
            Inl e \<Rightarrow> Inl e
          | Inr tbuf \<Rightarrow> Inr (tcs_new\<lparr>cdata_toast := (cdata_toast tcs_new)[i := Some tbuf]\<rparr>)))"

text \<open>
  \<open>tcache_copy_cs_varlena\<close> as it is called on a column of two chunks: it reads the two
  toast pointers of the column, either of which may be NULL, and follows them only for
  a row whose offset is not zero.
\<close>

definition copy_cs_varlena_cdata ::
  "toast_params \<Rightarrow> tcache_toastbuf option \<Rightarrow> tcache_toastbuf option \<Rightarrow> nat list
     \<Rightarrow> error + (nat list \<times> tcache_toastbuf option)" where
  "copy_cs_varlena_cdata P tbuf_dst tbuf_src src_ofs =
     (if list_all (\<lambda>ofs. ofs = 0) src_ofs then Inr (map (\<lambda>ofs. 0) src_ofs, tbuf_dst)
      else (case tbuf_src of
              None \<Rightarrow> Inl NullPointerDereference
            | Some src \<Rightarrow>
               (case tbuf_dst of
                  None \<Rightarrow> Inl NullPointerDereference
                | Some dst \<Rightarrow>
                   (case tcache_copy_cs_varlena P dst src src_ofs of
                      Inl e \<Rightarrow> Inl e
                    | Inr (dst_ofs, tbuf) \<Rightarrow> Inr (dst_ofs, Some tbuf)))))"

subsection \<open>Example data with column data\<close>

text \<open>
  Shared memory in which every request is granted, a toast buffer getting the length
  it asks for and a fresh block of nodes holding two nodes; one cached column, of four
  bytes and not null; and the row of a chunk with this one column: its item pointer,
  its raw xmax and its value.
\<close>

definition shmem_granted :: shmem_params where
  "shmem_granted =
     \<lparr>shmem_toast = \<lparr>shmem_alloc_alap = Some, TCACHE_TOASTBUF_INITSIZE = 64,
                      toastbuf_data_offset = 24\<rparr>,
      shmem_alloc_column_store = True,
      shmem_alloc_node_block = Some [4096, 4160]\<rparr>"

definition int4_column :: "Form_pg_attribute list" where
  "int4_column = [\<lparr>attlen = 4, attnotnull = True\<rparr>]"

definition int4_row :: "BlockNumber \<Rightarrow> OffsetNumber \<Rightarrow> TransactionId \<Rightarrow> nat \<Rightarrow> cs_datum list tc_row" where
  "int4_row b off x v =
     \<lparr>r_ctid = (b, off), r_xmax = x, r_cdata = [\<lparr>d_isnull = False, d_value = v\<rparr>]\<rparr>"

subsection \<open>Compaction: \<open>tcache_compaction_tcnode\<close>\<close>

text \<open>
  A row is vacuumed when the raw xmax of its header is below
  \<open>FirstNormalTransactionId\<close>; the loop skips it.
\<close>

definition row_vacuumed :: "'v tc_row \<Rightarrow> bool" where
  "row_vacuumed r = (r_xmax r < FirstNormalTransactionId)"

text \<open>
  The loop over the columns for one row that is kept: the entry of column \<open>k\<close> of the
  old row goes to the new row, which is built entry by entry. The null bit is copied
  where the column has a null map. The value is copied for a fixed-length column; for a
  variable-length column \<open>tcache_copy_cs_varlena\<close> copies the one value from the old
  toast buffer to the new one, which may replace the new toast buffer, and yields the
  new offset. The state of the loop is the entries of the new row so far and the toast
  buffers of the new chunk.
\<close>

definition compaction_copy_datum ::
  "toast_params \<Rightarrow> Form_pg_attribute list \<Rightarrow> tcache_column_store_cdata \<Rightarrow> cs_datum list tc_row
     \<Rightarrow> nat \<Rightarrow> cs_datum list \<times> tcache_toastbuf option list
     \<Rightarrow> error + (cs_datum list \<times> tcache_toastbuf option list)" where
  "compaction_copy_datum P attrs tcs_old r k st =
     (let datum = r_cdata r ! k;
          isnull = (\<not> attnotnull (attrs ! k) \<and> d_isnull datum)
      in if attlen (attrs ! k) > 0
         then Inr (fst st @ [\<lparr>d_isnull = isnull, d_value = d_value datum\<rparr>], snd st)
         else (case copy_cs_varlena_cdata P (snd st ! k) (cdata_toast tcs_old ! k)
                      [d_value datum] of
                 Inl e \<Rightarrow> Inl e
               | Inr (dst_ofs, tbuf) \<Rightarrow>
                   Inr (fst st @ [\<lparr>d_isnull = isnull, d_value = dst_ofs ! 0\<rparr>],
                        (snd st)[k := tbuf])))"

text \<open>
  The body of the loop over the rows of the old chunk: a vacuumed row is skipped; any
  other row is copied to the next free row number of the new chunk, and the block range
  of the new chunk is widened to its block.
\<close>

definition compaction_copy_row ::
  "toast_params \<Rightarrow> Form_pg_attribute list \<Rightarrow> tcache_column_store_cdata \<Rightarrow> cs_datum list tc_row
     \<Rightarrow> tcache_column_store_cdata \<Rightarrow> error + tcache_column_store_cdata" where
  "compaction_copy_row P attrs tcs_old r tcs_new =
     (if r_xmax r < FirstNormalTransactionId then Inr tcs_new
      else (case for_each (compaction_copy_datum P attrs tcs_old r) [0 ..< ncols tcs_old]
                   ([], cdata_toast tcs_new) of
              Inl e \<Rightarrow> Inl e
            | Inr (cdata, toast) \<Rightarrow>
                Inr (tcs_new\<lparr>rows := rows tcs_new @ [r\<lparr>r_cdata := cdata\<rparr>],
                             blkno_max := (if row_blkno r > blkno_max tcs_new
                                           then row_blkno r else blkno_max tcs_new),
                             blkno_min := (if row_blkno r < blkno_min tcs_new
                                           then row_blkno r else blkno_min tcs_new),
                             cdata_toast := toast\<rparr>)))"

text \<open>
  \<open>tcache_compaction_tcnode\<close> on the chunk of a node: a new chunk is created, its toast
  buffers are assigned, its block range starts out as the old one with its ends
  exchanged, the rows are copied, and the new chunk replaces the old one with the junk
  counter zero and the old \<open>is_sorted\<close>. Any error is raised again after the new chunk
  has been released; the node then keeps its old chunk. The assertion after the loop
  (\<open>nrows - njunks\<close> of the old chunk equals the new \<open>nrows\<close>) is compiled to nothing
  unless \<open>USE_ASSERT_CHECKING\<close> is set; the functions are modelled as the production build
  runs them.
\<close>

definition tcache_compaction_tcnode ::
  "shmem_params \<Rightarrow> Form_pg_attribute list \<Rightarrow> tcache_column_store_cdata
     \<Rightarrow> error + tcache_column_store_cdata" where
  "tcache_compaction_tcnode S attrs tcs_old =
     (case tcache_create_column_store S attrs of
        Inl e \<Rightarrow> Inl e
      | Inr tcs_new \<Rightarrow>
         (case for_each (assign_toast_buffer (shmem_toast S) tcs_old) [0 ..< ncols tcs_old]
                 tcs_new of
            Inl e \<Rightarrow> Inl e
          | Inr tcs_new1 \<Rightarrow>
             (case for_each (compaction_copy_row (shmem_toast S) attrs tcs_old) (rows tcs_old)
                     (tcs_new1\<lparr>blkno_min := blkno_max tcs_old,
                               blkno_max := blkno_min tcs_old\<rparr>) of
                Inl e \<Rightarrow> Inl e
              | Inr tcs_new2 \<Rightarrow>
                  Inr (tcs_new2\<lparr>njunks := 0, is_sorted := is_sorted tcs_old\<rparr>))))"

subsection \<open>Sorting a chunk in place: \<open>tcache_sort_tcnode\<close>\<close>

text \<open>
  \<open>tcache_sort_tcnode_internal\<close> sorts the rows \<open>left .. right\<close> by item pointer. Its
  pivot is a pointer to the middle row of the array, so the comparisons read whatever
  row stands there at the moment; \<open>p\<close> is that row number. The two inner loops move
  \<open>li\<close> up and \<open>ri\<close> down. Row numbers are C integers; reading a row number outside
  \<open>0 ..< nrows\<close> yields no result.
\<close>

definition row_swap :: "'v tc_row list \<Rightarrow> int \<Rightarrow> int \<Rightarrow> 'v tc_row list" where
  "row_swap a li ri = a[nat li := a ! nat ri, nat ri := a ! nat li]"

function sort_scan_up :: "'v tc_row list \<Rightarrow> nat \<Rightarrow> int \<Rightarrow> int option" where
  "sort_scan_up a p li =
     (if li < 0 \<or> int (length a) \<le> li \<or> length a \<le> p then None
      else if ItemPointerCompare (r_ctid (a ! nat li)) (r_ctid (a ! p)) < 0
      then sort_scan_up a p (li + 1)
      else Some li)"
  by pat_completeness auto
termination
  by (relation "measure (\<lambda>(a, p, li). nat (int (length a) - li))") auto

function sort_scan_down :: "'v tc_row list \<Rightarrow> nat \<Rightarrow> int \<Rightarrow> int option" where
  "sort_scan_down a p ri =
     (if ri < 0 \<or> int (length a) \<le> ri \<or> length a \<le> p then None
      else if ItemPointerCompare (r_ctid (a ! nat ri)) (r_ctid (a ! p)) > 0
      then sort_scan_down a p (ri - 1)
      else Some ri)"
  by pat_completeness auto
termination
  by (relation "measure (\<lambda>(a, p, ri). nat (ri + 1))") auto

declare sort_scan_up.simps [simp del] sort_scan_down.simps [simp del]

text \<open>
  The outer loop \<open>while (li < ri)\<close>: both scans, then the swap of the rows \<open>li\<close> and
  \<open>ri\<close> with \<open>li++\<close>, \<open>ri--\<close> when \<open>li < ri\<close> still holds. It hands back the array
  and the final \<open>li\<close> and \<open>ri\<close>.
\<close>

function sort_partition ::
  "'v tc_row list \<Rightarrow> nat \<Rightarrow> int \<Rightarrow> int \<Rightarrow> ('v tc_row list \<times> int \<times> int) option" where
  "sort_partition a p li ri =
     (if li < ri
      then (case sort_scan_up a p li of
              None \<Rightarrow> None
            | Some li' \<Rightarrow>
               (case sort_scan_down a p ri of
                  None \<Rightarrow> None
                | Some ri' \<Rightarrow>
                   if li' < ri'
                   then sort_partition (row_swap a li' ri') p (li' + 1) (ri' - 1)
                   else sort_partition a p li' ri'))
      else Some (a, li, ri))"
  by pat_completeness auto
termination
proof (relation "measure (\<lambda>(a, p, li, ri). nat (ri - li))")
  show "wf (measure (\<lambda>(a :: 'v tc_row list, p :: nat, li :: int, ri :: int). nat (ri - li)))"
    by simp
next
  fix a :: "'v tc_row list" and p :: nat and li ri li' ri' :: int
  assume lt: "li < ri" and up: "sort_scan_up a p li = Some li'"
    and down: "sort_scan_down a p ri = Some ri'" and lt': "li' < ri'"
  have "sort_scan_up b q x = Some y \<Longrightarrow> x \<le> y" for b :: "'v tc_row list" and q x y
  proof (induction b q x rule: sort_scan_up.induct)
    case (1 b q x)
    then show ?case
      by (subst (asm) (2) sort_scan_up.simps) (fastforce split: if_splits)
  qed
  then have 1: "li \<le> li'" using up by blast
  have "sort_scan_down b q x = Some y \<Longrightarrow> y \<le> x" for b :: "'v tc_row list" and q x y
  proof (induction b q x rule: sort_scan_down.induct)
    case (1 b q x)
    then show ?case
      by (subst (asm) (2) sort_scan_down.simps) (fastforce split: if_splits)
  qed
  then have 2: "ri' \<le> ri" using down by blast
  show "((row_swap a li' ri', p, li' + 1, ri' - 1), (a, p, li, ri))
          \<in> measure (\<lambda>(a, p, li, ri). nat (ri - li))"
    using 1 2 lt' by simp
next
  fix a :: "'v tc_row list" and p :: nat and li ri li' ri' :: int
  assume "li < ri" and "\<not> li' < ri'"
  then show "((a, p, li', ri'), (a, p, li, ri)) \<in> measure (\<lambda>(a, p, li, ri). nat (ri - li))"
    by simp
qed

declare sort_partition.simps [simp del]

text \<open>
  The recursion on the two parts. The pivot is read only when \<open>left < right\<close>, where
  \<open>left + right\<close> is not negative, so the C division is \<open>div\<close>. A run that reads
  outside the array, or does not return, has no result.
\<close>

partial_function (option) tcache_sort_tcnode_internal ::
  "'v tc_row list \<Rightarrow> int \<Rightarrow> int \<Rightarrow> 'v tc_row list option" where
  "tcache_sort_tcnode_internal a left right =
     (if left \<ge> right then Some a
      else (case sort_partition a (nat ((left + right) div 2)) left right of
              None \<Rightarrow> None
            | Some (a', li, ri) \<Rightarrow>
               Option.bind (tcache_sort_tcnode_internal a' left (li - 1))
                 (\<lambda>a''. tcache_sort_tcnode_internal a'' (ri + 1) right)))"

declare tcache_sort_tcnode_internal.simps [code]

text \<open>\<open>tcache_sort_tcnode\<close> with \<open>is_inplace\<close> set, as the split calls it.\<close>

definition tcache_sort_tcnode ::
  "('v, 'z) tcache_column_store_scheme \<Rightarrow> ('v, 'z) tcache_column_store_scheme option" where
  "tcache_sort_tcnode tcs =
     (case tcache_sort_tcnode_internal (rows tcs) 0 (int (nrows tcs) - 1) of
        None \<Rightarrow> None
      | Some rs \<Rightarrow> Some (tcs\<lparr>rows := rs, is_sorted := True\<rparr>))"

subsection \<open>A new tree node: \<open>tcache_alloc_tcnode\<close>\<close>

text \<open>
  The argument \<open>free_nodes\<close> is the list of free nodes of the head, each node named by its
  address. When the list is empty a block of nodes is allocated and all its nodes are
  pushed on the list. The head of the list is popped and \<open>tc_node\<close> is set to the node
  that contains it. Then comes \<open>memset(&tc_node, 0, sizeof(tcache_node))\<close>, which clears
  the pointer variable \<open>tc_node\<close> itself (and the stack behind it) instead of the node it
  points to: \<open>tc_node\<close> is NULL from here on. The next statement,
  \<open>SpinLockInit(&tc_node->lock)\<close>, writes through this pointer. The rest of the function
  creates the chunk of the node; its result would be the node, its chunk and the free
  list that is left.
\<close>

definition memset_pointer_variable :: "nat option \<Rightarrow> nat option" where
  "memset_pointer_variable tc_node = None"

definition tcache_alloc_tcnode ::
  "shmem_params \<Rightarrow> Form_pg_attribute list \<Rightarrow> nat list
     \<Rightarrow> error + (nat \<times> tcache_column_store_cdata \<times> nat list)" where
  "tcache_alloc_tcnode S attrs free_nodes =
     (case (if free_nodes = []
            then (case shmem_alloc_node_block S of
                    None \<Rightarrow> Inl OutOfSharedMemory
                  | Some block \<Rightarrow> Inr (free_nodes @ block))
            else Inr free_nodes) of
        Inl e \<Rightarrow> Inl e
      | Inr [] \<Rightarrow> Inl InvalidPointer
      | Inr (dnode # free_rest) \<Rightarrow>
         (let tc_node = Some dnode;
              tc_node = memset_pointer_variable tc_node
          in case tc_node of
               None \<Rightarrow> Inl NullPointerDereference
             | Some node \<Rightarrow>
                (case tcache_create_column_store S attrs of
                   Inl e \<Rightarrow> Inl e
                 | Inr tcs \<Rightarrow> Inr (node, tcs, free_rest))))"

subsection \<open>Splitting a chunk: \<open>tcache_split_tcnode\<close>\<close>

text \<open>
  The loop that counts the rows to stay: from \<open>nremain = nrows\<close> downwards while the
  row \<open>nremain - 1\<close> is of block \<open>blkno_max\<close>.
\<close>

fun split_nremain :: "'v tc_row list \<Rightarrow> BlockNumber \<Rightarrow> nat \<Rightarrow> nat" where
  "split_nremain rs bmax 0 = 0"
| "split_nremain rs bmax (Suc n) =
     (if row_blkno (rs ! n) \<noteq> bmax then Suc n else split_nremain rs bmax n)"

text \<open>
  The chunk as the split reads it: sorted in place first when the flag \<open>is_sorted\<close> is
  not set.
\<close>

definition split_sorted_input ::
  "('v, 'z) tcache_column_store_scheme \<Rightarrow> ('v, 'z) tcache_column_store_scheme option" where
  "split_sorted_input tcs = (if is_sorted tcs then Some tcs else tcache_sort_tcnode tcs)"

text \<open>
  The body of the loop \<open>copy regular columns\<close> for column \<open>i\<close>: the entries of the rows
  from \<open>nremain\<close> on go to the rows of the new chunk, which are built entry by entry.
  The null bits are copied for a column without \<open>attnotnull\<close>, the values for a
  fixed-length column; for a variable-length column \<open>tcache_copy_cs_varlena\<close> copies the
  values of all moved rows to the toast buffer of the new chunk.
\<close>

definition split_copy_column ::
  "toast_params \<Rightarrow> Form_pg_attribute list \<Rightarrow> tcache_column_store_cdata \<Rightarrow> nat \<Rightarrow> nat
     \<Rightarrow> tcache_column_store_cdata \<Rightarrow> error + tcache_column_store_cdata" where
  "split_copy_column P attrs tcs_old nremain i tcs_new =
     (let moved = map (\<lambda>r. r_cdata r ! i) (drop nremain (rows tcs_old));
          isnull = map (\<lambda>datum. \<not> attnotnull (attrs ! i) \<and> d_isnull datum) moved
      in case (if attlen (attrs ! i) > 0
               then Inr (map d_value moved, cdata_toast tcs_new ! i)
               else copy_cs_varlena_cdata P (cdata_toast tcs_new ! i) (cdata_toast tcs_old ! i)
                      (map d_value moved)) of
           Inl e \<Rightarrow> Inl e
         | Inr (values, tbuf) \<Rightarrow>
             Inr (tcs_new\<lparr>rows := map (\<lambda>(r, datum). r\<lparr>r_cdata := r_cdata r @ [datum]\<rparr>)
                                    (zip (rows tcs_new)
                                       (map (\<lambda>(n, v). \<lparr>d_isnull = n, d_value = v\<rparr>)
                                          (zip isnull values))),
                          cdata_toast := (cdata_toast tcs_new)[i := tbuf]\<rparr>))"

text \<open>
  The split from the point where it has the chunk \<open>tcs_new\<close> of the new node: toast
  buffers for the new chunk, the in-place sort of the old chunk when it is not flagged
  as sorted, the count of the rows to stay, the copy of the other rows, and the new
  ends of both block ranges. The new node becomes the right child of the old one. The
  last step is the compaction of the old chunk. The result is the pair of the old
  node's chunk and the new node's chunk.

  The assertions \<open>blkno_min != blkno_max\<close>, \<open>nremain > 0 && nmoved > 0\<close> and
  \<open>blkno_min == blkno_max\<close> of the new chunk are not compiled into a production build.
  With \<open>nmoved = 0\<close> or \<open>nremain = 0\<close> the block numbers are then read from row number
  \<open>-1\<close>, a row that is not there; this has the error result \<open>InvalidPointer\<close>, and so
  has a sort that reads outside the rows of the chunk or does not return. An error
  result stands for the end of the function by a fault or by \<open>elog(ERROR, ...)\<close>; what
  the function leaves behind then is not part of the result.
\<close>

definition split_move_rows ::
  "shmem_params \<Rightarrow> Form_pg_attribute list \<Rightarrow> tcache_column_store_cdata
     \<Rightarrow> tcache_column_store_cdata
     \<Rightarrow> error + (tcache_column_store_cdata \<times> tcache_column_store_cdata)" where
  "split_move_rows S attrs tcs_old0 tcs_new0 =
     (case for_each (assign_toast_buffer (shmem_toast S) tcs_old0) [0 ..< ncols tcs_old0]
             tcs_new0 of
        Inl e \<Rightarrow> Inl e
      | Inr tcs_new1 \<Rightarrow>
         (case split_sorted_input tcs_old0 of
            None \<Rightarrow> Inl InvalidPointer
          | Some tcs_old \<Rightarrow>
             (let nremain = split_nremain (rows tcs_old) (blkno_max tcs_old) (nrows tcs_old);
                  nmoved = nrows tcs_old - nremain
              in if nmoved = 0 \<or> nremain = 0 then Inl InvalidPointer
                 else (case for_each (split_copy_column (shmem_toast S) attrs tcs_old nremain)
                               [0 ..< ncols tcs_old]
                               (tcs_new1\<lparr>rows := map (\<lambda>r. r\<lparr>r_cdata := []\<rparr>)
                                                    (drop nremain (rows tcs_old))\<rparr>) of
                         Inl e \<Rightarrow> Inl e
                       | Inr tcs_new2 \<Rightarrow>
                          (let tcs_new = tcs_new2
                                 \<lparr>njunks := 0, is_sorted := True,
                                  blkno_min := row_blkno (rows tcs_new2 ! 0),
                                  blkno_max := row_blkno (rows tcs_new2 ! (nmoved - 1))\<rparr>;
                               tcs_rest = tcs_old
                                 \<lparr>rows := take nremain (rows tcs_old),
                                  blkno_max := row_blkno (rows tcs_old ! (nremain - 1))\<rparr>
                           in case tcache_compaction_tcnode S attrs tcs_rest of
                                Inl e \<Rightarrow> Inl e
                              | Inr tcs_compacted \<Rightarrow> Inr (tcs_compacted, tcs_new))))))"

text \<open>
  \<open>tcache_split_tcnode\<close>: the new node comes from \<open>tcache_alloc_tcnode\<close>, then the rows
  are moved. The result is the old node's chunk, the new node with its chunk, and the
  free list of the head.
\<close>

definition tcache_split_tcnode ::
  "shmem_params \<Rightarrow> Form_pg_attribute list \<Rightarrow> nat list \<Rightarrow> tcache_column_store_cdata
     \<Rightarrow> error + (tcache_column_store_cdata \<times> (nat \<times> tcache_column_store_cdata) \<times> nat list)" where
  "tcache_split_tcnode S attrs free_nodes tcs_old =
     (case tcache_alloc_tcnode S attrs free_nodes of
        Inl e \<Rightarrow> Inl e
      | Inr (tc_node_new, tcs_new, free_rest) \<Rightarrow>
         (case split_move_rows S attrs tcs_old tcs_new of
            Inl e \<Rightarrow> Inl e
          | Inr (tcs_old', tcs_new') \<Rightarrow> Inr (tcs_old', (tc_node_new, tcs_new'), free_rest)))"

section \<open>The cache head and its build (tcache.c)\<close>

datatype tcache_state = TCACHE_STATE_NOT_BUILT | TCACHE_STATE_NOW_BUILD | TCACHE_STATE_READY

text \<open>
  Of the cache head: its state, its reference counter, the root of the tree and the
  list of free nodes. Of the scan descriptor: whether \<open>heapscan\<close> is set, that is,
  whether the heap scan of a build is still open. A head that \<open>tcache_put_tchead\<close>
  released is no head any more (\<open>None\<close>).
\<close>

record 'v tcache_head =
  state :: tcache_state
  refcnt :: int
  tcs_root :: "'v tcache_node"
  free_list :: "nat list"

record tcache_scandesc =
  heapscan :: bool

text \<open>
  \<open>tcache_free_node_recurse\<close>: right subtree, left subtree, then
  \<open>tcache_free_node_nolock\<close> on the node itself, which drops the chunk, sets
  \<open>tc_node->tcs = NULL\<close> and pushes the node on the head of the free list. The child
  pointers stay as they are.
\<close>

fun tcache_free_node_recurse ::
  "'v tcache_node \<Rightarrow> nat list \<Rightarrow> error + ('v tcache_node \<times> nat list)" where
  "tcache_free_node_recurse TcNull fl = Inl NullPointerDereference"
| "tcache_free_node_recurse (TcNode a l t r) fl =
     (case (if r \<noteq> TcNull then tcache_free_node_recurse r fl else Inr (r, fl)) of
        Inl e \<Rightarrow> Inl e
      | Inr (r', fl1) \<Rightarrow>
         (case (if l \<noteq> TcNull then tcache_free_node_recurse l fl1 else Inr (l, fl1)) of
            Inl e \<Rightarrow> Inl e
          | Inr (l', fl2) \<Rightarrow> Inr (TcNode a l' None r', a # fl2)))"

text \<open>
  \<open>tcache_put_tchead\<close>: the counter goes down by one; at zero the nodes are released
  once more and the head is freed.
\<close>

definition tcache_put_tchead :: "'v tcache_head \<Rightarrow> error + 'v tcache_head option" where
  "tcache_put_tchead tc_head =
     (if refcnt tc_head - 1 = 0
      then (case tcache_free_node_recurse (tcs_root tc_head) (free_list tc_head) of
              Inl e \<Rightarrow> Inl e
            | Inr released \<Rightarrow> Inr None)
      else Inr (Some (tc_head\<lparr>refcnt := refcnt tc_head - 1\<rparr>)))"

text \<open>
  \<open>tcache_begin_scan\<close> after the head has been looked up (the counter already counts
  this scan): a head that is not built yet goes to \<open>NOW_BUILD\<close> and the scan opens the
  heap scan that will feed the build; for any other state the scan opens no heap scan
  and so reads the tree as it is. The source asserts that the state is \<open>READY\<close> then.
\<close>

definition tcache_begin_scan :: "'v tcache_head \<Rightarrow> 'v tcache_head \<times> tcache_scandesc" where
  "tcache_begin_scan tc_head =
     (if state tc_head = TCACHE_STATE_NOT_BUILT
      then (tc_head\<lparr>state := TCACHE_STATE_NOW_BUILD\<rparr>, \<lparr>heapscan = True\<rparr>)
      else (tc_head, \<lparr>heapscan = False\<rparr>))"

definition tcache_end_scan ::
  "tcache_scandesc \<Rightarrow> 'v tcache_head \<Rightarrow> error + 'v tcache_head option" where
  "tcache_end_scan tc_scan tc_head =
     (if heapscan tc_scan
      then (case tcache_free_node_recurse (tcs_root tc_head) (free_list tc_head) of
              Inl e \<Rightarrow> Inl e
            | Inr (root, fl) \<Rightarrow>
                tcache_put_tchead (tc_head\<lparr>tcs_root := root, free_list := fl\<rparr>))
      else if state tc_head = TCACHE_STATE_NOW_BUILD
      then tcache_put_tchead (tc_head\<lparr>state := TCACHE_STATE_READY\<rparr>)
      else tcache_put_tchead tc_head)"

text \<open>\<open>tcache_rescan\<close>; the heap scan, when open, is restarted and stays open.\<close>

definition tcache_rescan ::
  "tcache_scandesc \<Rightarrow> 'v tcache_head \<Rightarrow> error + ('v tcache_head \<times> tcache_scandesc)" where
  "tcache_rescan tc_scan tc_head =
     (if state tc_head = TCACHE_STATE_NOW_BUILD
      then (case tcache_free_node_recurse (tcs_root tc_head) (free_list tc_head) of
              Inl e \<Rightarrow> Inl e
            | Inr (root, fl) \<Rightarrow> Inr (tc_head\<lparr>tcs_root := root, free_list := fl\<rparr>, tc_scan))
      else Inr (tc_head, tc_scan))"

section \<open>Vacuum of a row store (tcache.c)\<close>

text \<open>
  A row store keeps the observed block range and, for each row number, the offset of
  the tuple in its buffer (\<open>tupoffset[index]\<close>) and the tuple. The accessor
  \<open>kern_rowstore_get_tuple\<close> is declared outside the sources at hand; as the callers
  use it, it yields NULL for a row whose offset has been set to zero.
\<close>

record rs_tuple =
  t_self :: ItemPointerData

record tcache_row_store =
  trs_blkno_min :: BlockNumber
  trs_blkno_max :: BlockNumber
  trs_tuples :: "(nat \<times> rs_tuple) list"

definition kern_rowstore_get_tuple :: "nat \<times> rs_tuple \<Rightarrow> rs_tuple option" where
  "kern_rowstore_get_tuple e = (if fst e = 0 then None else Some (snd e))"

text \<open>
  A heap page, as far as the vacuum reads it: the line pointer of each offset number
  (\<open>PageGetItemId\<close>), with its flags and its \<open>lp_off\<close> field, which
  \<open>ItemIdGetOffset\<close> and \<open>ItemIdGetRedirect\<close> both read.
\<close>

datatype lp_flags = LP_UNUSED | LP_NORMAL | LP_REDIRECT | LP_DEAD

record ItemIdData =
  lp_off :: nat
  lp_flags :: lp_flags

type_synonym Page = "OffsetNumber \<Rightarrow> ItemIdData"

text \<open>The loop \<open>while (ItemIdIsRedirected(itemid)) itemid = PageGetItemId(...)\<close>.\<close>

partial_function (option) follow_redirect :: "Page \<Rightarrow> ItemIdData \<Rightarrow> ItemIdData option" where
  "follow_redirect page itemid =
     (if lp_flags itemid = LP_REDIRECT then follow_redirect page (page (lp_off itemid))
      else Some itemid)"

declare follow_redirect.simps [code]

fun vacuum_row_store_loop ::
  "Page \<Rightarrow> BlockNumber \<Rightarrow> (nat \<times> rs_tuple) list \<Rightarrow> (nat \<times> rs_tuple) list option" where
  "vacuum_row_store_loop page blknum [] = Some []"
| "vacuum_row_store_loop page blknum (e # rest) =
     (case kern_rowstore_get_tuple e of
        None \<Rightarrow> map_option (Cons e) (vacuum_row_store_loop page blknum rest)
      | Some rs_tup \<Rightarrow>
          if ItemPointerGetBlockNumber (t_self rs_tup) \<noteq> blknum
          then map_option (Cons e) (vacuum_row_store_loop page blknum rest)
          else (let itemid = page (ItemPointerGetOffsetNumber (t_self rs_tup))
                in if lp_flags itemid \<noteq> LP_NORMAL
                   then (case follow_redirect page itemid of
                           None \<Rightarrow> None
                         | Some itemid' \<Rightarrow>
                             if lp_flags itemid' = LP_NORMAL
                             then map_option
                                    (Cons (fst e, rs_tup\<lparr>t_self :=
                                       (ItemPointerGetBlockNumber (t_self rs_tup), lp_off itemid')\<rparr>))
                                    (vacuum_row_store_loop page blknum rest)
                             else map_option (Cons (0, rs_tup))
                                    (vacuum_row_store_loop page blknum rest))
                   else map_option (Cons e) (vacuum_row_store_loop page blknum rest)))"

text \<open>
  \<open>do_vacuum_row_store\<close> for the page of block \<open>blknum\<close>. No result stands for a
  redirect chain that never ends.
\<close>

definition do_vacuum_row_store ::
  "tcache_row_store \<Rightarrow> BlockNumber \<Rightarrow> Page \<Rightarrow> tcache_row_store option" where
  "do_vacuum_row_store trs blknum page =
     (if blknum < trs_blkno_min trs \<or> trs_blkno_max trs > blknum then Some trs
      else map_option (\<lambda>ts. trs\<lparr>trs_tuples := ts\<rparr>)
             (vacuum_row_store_loop page blknum (trs_tuples trs)))"

section \<open>Vacuum of a column store (tcache.c)\<close>





section \<open>The shared memory allocator (shmem.c)\<close>

definition SHMEM_BLOCK_FREE :: nat where "SHMEM_BLOCK_FREE = 0xF9EEA9EA"
definition SHMEM_BLOCK_USED :: nat where "SHMEM_BLOCK_USED = 0xA110CED0"
definition SHMEM_BLOCK_OVERRUN_MARK :: nat where "SHMEM_BLOCK_OVERRUN_MARK = 0xDEADBEAF"
definition SHMEM_BLOCK_STROM_QUEUE :: nat where "SHMEM_BLOCK_STROM_QUEUE = 0xA110CED1"

text \<open>
  A block is known by its address. The segment keeps the list of all blocks in address
  order and the list of free blocks; both are lists of addresses here, and \<open>blocks\<close>
  maps an address to the header of the block that starts there.
  \<open>offsetof(ShmemBlock, data)\<close> is 64 on the 64-bit platforms and \<open>sizeof(uint32)\<close>
  is 4. Sizes are \<open>Size\<close> values of the source, natural numbers here; the field
  \<open>size\<close> of a block is \<open>size_blk\<close>.
\<close>

record ShmemBlock =
  magic :: nat
  size_blk :: nat
  pid :: nat
  owner :: nat
  overrun_marker :: nat

record ShmemHead =
  free_size :: nat
  addr_head :: "nat list"
  free_head :: "nat list"
  blocks :: "nat \<Rightarrow> ShmemBlock option"

definition ShmemBlock_data_offset :: nat where
  "ShmemBlock_data_offset = 64"

definition shmem_required :: "nat \<Rightarrow> nat" where
  "shmem_required sz = MAXALIGN (ShmemBlock_data_offset + MAXALIGN sz + 4)"

text \<open>\<open>dlist_insert_after\<close> in the address list.\<close>

fun dlist_insert_after :: "nat \<Rightarrow> nat \<Rightarrow> nat list \<Rightarrow> nat list" where
  "dlist_insert_after a new [] = []"
| "dlist_insert_after a new (x # xs) =
     (if x = a then x # new # xs else x # dlist_insert_after a new xs)"

text \<open>
  The loop over the free list. \<open>block\<close> is the local variable of the source: it is
  assigned at the start of every round and is what the function hands back. The third
  argument is the part of the free list the loop has still to visit.
\<close>

fun shmem_alloc_loop ::
  "nat \<Rightarrow> nat \<Rightarrow> nat list \<Rightarrow> nat option \<Rightarrow> ShmemHead \<Rightarrow> error + (nat option \<times> ShmemHead)" where
  "shmem_alloc_loop mg required [] block st = Inr (block, st)"
| "shmem_alloc_loop mg required (cur # rest) block st =
     (case blocks st cur of
        None \<Rightarrow> Inl InvalidPointer
      | Some b \<Rightarrow>
          if size_blk b < required
          then shmem_alloc_loop mg required rest (Some cur) st
          else if size_blk b < required + 4096
          then Inr (Some cur,
                    st\<lparr>free_head := remove1 cur (free_head st),
                       blocks := (blocks st)(cur \<mapsto> b\<lparr>magic := mg\<rparr>),
                       free_size := free_size st - size_blk b\<rparr>)
          else Inr (Some cur,
                    st\<lparr>free_head := (cur + required) # remove1 cur (free_head st),
                       addr_head := dlist_insert_after cur (cur + required) (addr_head st),
                       blocks := (blocks st)
                          (cur + required \<mapsto>
                             \<lparr>magic = SHMEM_BLOCK_FREE, size_blk = size_blk b - required,
                              pid = 0, owner = 0, overrun_marker = 0\<rparr>,
                           cur \<mapsto> b\<lparr>magic := mg, size_blk := required\<rparr>)\<rparr>))"

text \<open>
  \<open>pgstrom_shmem_alloc\<close>; \<open>getpid()\<close> and \<open>CurrentResourceOwner\<close> are the arguments
  \<open>my_pid\<close> and \<open>my_owner\<close>. The result is the address handed back (or NULL) and the
  segment afterwards.
\<close>

definition pgstrom_shmem_alloc ::
  "nat \<Rightarrow> nat \<Rightarrow> nat \<Rightarrow> nat \<Rightarrow> ShmemHead \<Rightarrow> error + (nat option \<times> ShmemHead)" where
  "pgstrom_shmem_alloc my_pid my_owner mg sz st =
     (case shmem_alloc_loop mg (shmem_required sz) (free_head st) None st of
        Inl e \<Rightarrow> Inl e
      | Inr (None, st') \<Rightarrow> Inr (None, st')
      | Inr (Some block, st') \<Rightarrow>
          (case blocks st' block of
             None \<Rightarrow> Inl InvalidPointer
           | Some b \<Rightarrow>
               Inr (Some block,
                    st'\<lparr>blocks := (blocks st')
                          (block \<mapsto> b\<lparr>pid := my_pid, owner := my_owner,
                                       overrun_marker := SHMEM_BLOCK_OVERRUN_MARK\<rparr>)\<rparr>)))"

section \<open>The message queue (shmem.c)\<close>

text \<open>
  Every queue function runs between \<open>pthread_mutex_lock\<close> and \<open>pthread_mutex_unlock\<close>
  on the queue's lock, so what it does under the lock is one step on the queue. What a
  step does to the condition variable is the list of events it emits.
  \<open>pgstrom_cond_wait\<close> gives the lock away while it waits, so a dequeue that finds the
  queue empty is two steps: the look at the queue before the wait, and the look after
  it, which takes an item only when the wait was ended by a wake-up and the queue is
  not empty then.
\<close>

record 'a StromQueue =
  qhead :: "'a list"
  is_shutdown :: bool

datatype cond_event = COND_SIGNAL | COND_BROADCAST

definition pgstrom_queue_enqueue ::
  "'a StromQueue \<Rightarrow> 'a \<Rightarrow> bool \<times> 'a StromQueue \<times> cond_event list" where
  "pgstrom_queue_enqueue queue chain =
     (if \<not> is_shutdown queue
      then (True, queue\<lparr>qhead := qhead queue @ [chain]\<rparr>, [COND_SIGNAL])
      else (False, queue, [COND_SIGNAL]))"

definition dequeue_before_wait ::
  "'a StromQueue \<Rightarrow> 'a option \<times> 'a StromQueue \<times> cond_event list" where
  "dequeue_before_wait queue =
     (case qhead queue of
        x # xs \<Rightarrow> (Some x, queue\<lparr>qhead := xs\<rparr>, [])
      | [] \<Rightarrow> (None, queue, []))"

definition dequeue_after_wait ::
  "bool \<Rightarrow> 'a StromQueue \<Rightarrow> 'a option \<times> 'a StromQueue \<times> cond_event list" where
  "dequeue_after_wait woken queue =
     (case qhead queue of
        x # xs \<Rightarrow> if woken then (Some x, queue\<lparr>qhead := xs\<rparr>, []) else (None, queue, [])
      | [] \<Rightarrow> (None, queue, []))"

text \<open>
  \<open>pgstrom_queue_dequeue\<close>: \<open>woken\<close> is the answer of \<open>pgstrom_cond_wait\<close> and
  \<open>queue'\<close> the queue as it stands when the wait gives the lock back.
\<close>

definition pgstrom_queue_dequeue ::
  "'a StromQueue \<Rightarrow> bool \<Rightarrow> 'a StromQueue
     \<Rightarrow> 'a option \<times> 'a StromQueue \<times> cond_event list" where
  "pgstrom_queue_dequeue queue woken queue' =
     (if qhead queue \<noteq> [] then dequeue_before_wait queue
      else dequeue_after_wait woken queue')"

definition pgstrom_queue_try_dequeue ::
  "'a StromQueue \<Rightarrow> 'a option \<times> 'a StromQueue \<times> cond_event list" where
  "pgstrom_queue_try_dequeue queue =
     (case qhead queue of
        x # xs \<Rightarrow> (Some x, queue\<lparr>qhead := xs\<rparr>, [])
      | [] \<Rightarrow> (None, queue, []))"

definition pgstrom_queue_is_empty ::
  "'a StromQueue \<Rightarrow> bool \<times> 'a StromQueue \<times> cond_event list" where
  "pgstrom_queue_is_empty queue = (qhead queue = [], queue, [])"

definition pgstrom_queue_shutdown :: "'a StromQueue \<Rightarrow> 'a StromQueue \<times> cond_event list" where
  "pgstrom_queue_shutdown queue = (queue\<lparr>is_shutdown := True\<rparr>, [])"

text \<open>
  A step of one of the queue functions on an allocated queue, by any process, and a run
  of such steps in the order in which they take the lock.
\<close>

datatype 'a queue_call =
    Enqueue 'a | DequeueBeforeWait | DequeueAfterWait bool | TryDequeue | IsEmpty | Shutdown

fun queue_step :: "'a queue_call \<Rightarrow> 'a StromQueue \<Rightarrow> 'a StromQueue \<times> cond_event list" where
  "queue_step (Enqueue x) q = snd (pgstrom_queue_enqueue q x)"
| "queue_step DequeueBeforeWait q = snd (dequeue_before_wait q)"
| "queue_step (DequeueAfterWait woken) q = snd (dequeue_after_wait woken q)"
| "queue_step TryDequeue q = snd (pgstrom_queue_try_dequeue q)"
| "queue_step IsEmpty q = snd (pgstrom_queue_is_empty q)"
| "queue_step Shutdown q = pgstrom_queue_shutdown q"

fun queue_run :: "'a queue_call list \<Rightarrow> 'a StromQueue \<Rightarrow> 'a StromQueue \<times> cond_event list" where
  "queue_run [] q = (q, [])"
| "queue_run (c # cs) q =
     (let (q1, ev1) = queue_step c q; (q2, ev2) = queue_run cs q1 in (q2, ev1 @ ev2))"

section \<open>Lemmas and theorems\<close>

subsection \<open>Item pointers\<close>



lemma ItemPointerCompare_gt0: "(ItemPointerCompare a b > 0) = (b < a)"
  by (cases a; cases b) (auto simp: ItemPointerCompare_def less_prod_def)


subsection \<open>Merge\<close>

text \<open>Whenever the merge happens, the new \<open>blkno_min\<close> is the larger of the two.\<close>

lemma do_try_merge_tcnode_blkno_min:
  "fst (do_try_merge_tcnode n tcs_dst tcs_src) \<Longrightarrow>
   blkno_min (snd (do_try_merge_tcnode n tcs_dst tcs_src))
     = max (blkno_min tcs_dst) (blkno_min tcs_src)"
  by (simp add: do_try_merge_tcnode_def split: if_splits)

text \<open>
  C2. The claim: after a merge the destination's range is the union of the two ranges
  (\<open>blkno_min\<close> the smaller of the two minima), so the merged chunk keeps its rows in
  range. The code takes the larger of the two minima. With a capacity of 12, a
  destination holding one row of block 10 and a donor holding one row of block 3, both
  in range, the merge happens, \<open>blkno_min\<close> stays 10, and the merged chunk holds a row
  of block 3 below it.
\<close>

theorem do_try_merge_tcnode_blkno_min_of_larger:
  "do_try_merge_tcnode 12
     \<lparr>rows = [\<lparr>r_ctid = (10, 1), r_xmax = 100, r_cdata = ()\<rparr>], njunks = 0,
      is_sorted = True, blkno_min = 10, blkno_max = 10\<rparr>
     \<lparr>rows = [\<lparr>r_ctid = (3, 1), r_xmax = 100, r_cdata = ()\<rparr>], njunks = 0,
      is_sorted = True, blkno_min = 3, blkno_max = 3\<rparr>
   = (True,
      \<lparr>rows = [\<lparr>r_ctid = (10, 1), r_xmax = 100, r_cdata = ()\<rparr>,
               \<lparr>r_ctid = (3, 1), r_xmax = 100, r_cdata = ()\<rparr>], njunks = 0,
       is_sorted = True, blkno_min = 10, blkno_max = 10\<rparr>)
   \<and> rows_in_range \<lparr>rows = [\<lparr>r_ctid = (10, 1), r_xmax = 100, r_cdata = ()\<rparr>], njunks = 0,
        is_sorted = True, blkno_min = 10, blkno_max = (10::nat)\<rparr>
   \<and> rows_in_range \<lparr>rows = [\<lparr>r_ctid = (3, 1), r_xmax = 100, r_cdata = ()\<rparr>], njunks = 0,
        is_sorted = True, blkno_min = 3, blkno_max = (3::nat)\<rparr>
   \<and> \<not> rows_in_range
        (snd (do_try_merge_tcnode 12
          \<lparr>rows = [\<lparr>r_ctid = (10, 1), r_xmax = 100, r_cdata = ()\<rparr>], njunks = 0,
           is_sorted = True, blkno_min = 10, blkno_max = 10\<rparr>
          \<lparr>rows = [\<lparr>r_ctid = (3, 1), r_xmax = 100, r_cdata = ()\<rparr>], njunks = 0,
           is_sorted = True, blkno_min = 3, blkno_max = 3\<rparr>))"
  by (simp add: do_try_merge_tcnode_def nrows_def rows_in_range_def row_blkno_def
      ItemPointerGetBlockNumber_def)

subsection \<open>Searching one chunk\<close>












subsection \<open>Range lookup in the tree\<close>









subsection \<open>Compaction\<close>

lemma for_each_skip:
  "list_all (\<lambda>x. body x s = Inr s) xs \<Longrightarrow> for_each body xs s = Inr s"
  by (induction xs) simp_all

lemma for_each_assign_toast_buffer_fields:
  "for_each (assign_toast_buffer P tcs_old) ks tcs = Inr tcs' \<Longrightarrow>
     rows tcs' = rows tcs \<and> njunks tcs' = njunks tcs \<and> is_sorted tcs' = is_sorted tcs
     \<and> blkno_min tcs' = blkno_min tcs \<and> blkno_max tcs' = blkno_max tcs
     \<and> length (cdata_toast tcs') = length (cdata_toast tcs)"
proof (induction ks arbitrary: tcs)
  case Nil
  then show ?case by simp
next
  case (Cons k ks)
  from Cons.prems obtain t where a: "assign_toast_buffer P tcs_old k tcs = Inr t"
    and r: "for_each (assign_toast_buffer P tcs_old) ks t = Inr tcs'"
    by (auto split: sum.splits)
  have "rows t = rows tcs \<and> njunks t = njunks tcs \<and> is_sorted t = is_sorted tcs
     \<and> blkno_min t = blkno_min tcs \<and> blkno_max t = blkno_max tcs
     \<and> length (cdata_toast t) = length (cdata_toast tcs)"
    using a by (auto simp: assign_toast_buffer_def split: option.splits sum.splits)
  then show ?case using Cons.IH[OF r] by simp
qed

text \<open>
  When the compaction returns, the new chunk holds the rows that are not vacuumed, in
  their order, each with its item pointer and its xmax; the junk counter is zero and
  the flag \<open>is_sorted\<close> is the old one.
\<close>

lemma for_each_compaction_copy_row_rows:
  "for_each (compaction_copy_row P attrs tcs_old) rs tcs = Inr tcs' \<Longrightarrow>
     map (\<lambda>r. (r_ctid r, r_xmax r)) (rows tcs')
       = map (\<lambda>r. (r_ctid r, r_xmax r)) (rows tcs)
         @ map (\<lambda>r. (r_ctid r, r_xmax r)) (filter (\<lambda>r. \<not> row_vacuumed r) rs)"
proof (induction rs arbitrary: tcs)
  case Nil
  then show ?case by simp
next
  case (Cons r rs)
  from Cons.prems obtain t where c: "compaction_copy_row P attrs tcs_old r tcs = Inr t"
    and rest: "for_each (compaction_copy_row P attrs tcs_old) rs t = Inr tcs'"
    by (auto split: sum.splits)
  have "map (\<lambda>r. (r_ctid r, r_xmax r)) (rows t)
          = map (\<lambda>r. (r_ctid r, r_xmax r)) (rows tcs)
            @ map (\<lambda>r. (r_ctid r, r_xmax r)) (filter (\<lambda>r. \<not> row_vacuumed r) [r])"
    using c
    by (auto simp: compaction_copy_row_def row_vacuumed_def split: if_splits sum.splits)
  then show ?case using Cons.IH[OF rest] by simp
qed

lemma tcache_compaction_tcnode_rows:
  assumes "tcache_compaction_tcnode S attrs tcs_old = Inr tcs_new"
  shows "map (\<lambda>r. (r_ctid r, r_xmax r)) (rows tcs_new)
           = map (\<lambda>r. (r_ctid r, r_xmax r)) (filter (\<lambda>r. \<not> row_vacuumed r) (rows tcs_old))"
    and "njunks tcs_new = 0" and "is_sorted tcs_new = is_sorted tcs_old"
proof -
  from assms obtain t0 t1 t2 where
    c: "tcache_create_column_store S attrs = Inr t0"
    and a: "for_each (assign_toast_buffer (shmem_toast S) tcs_old) [0 ..< ncols tcs_old] t0
              = Inr t1"
    and l: "for_each (compaction_copy_row (shmem_toast S) attrs tcs_old) (rows tcs_old)
              (t1\<lparr>blkno_min := blkno_max tcs_old, blkno_max := blkno_min tcs_old\<rparr>) = Inr t2"
    and e: "tcs_new = t2\<lparr>njunks := 0, is_sorted := is_sorted tcs_old\<rparr>"
    by (auto simp: tcache_compaction_tcnode_def split: sum.splits)
  have "rows t0 = []"
    using c by (auto simp: tcache_create_column_store_def split: if_splits)
  then have r1: "rows t1 = []" using for_each_assign_toast_buffer_fields[OF a] by simp
  show "map (\<lambda>r. (r_ctid r, r_xmax r)) (rows tcs_new)
           = map (\<lambda>r. (r_ctid r, r_xmax r)) (filter (\<lambda>r. \<not> row_vacuumed r) (rows tcs_old))"
    using for_each_compaction_copy_row_rows[OF l] r1 e by simp
  show "njunks tcs_new = 0" "is_sorted tcs_new = is_sorted tcs_old"
    using e by simp_all
qed

text \<open>
  When every row is vacuumed, the loop changes nothing: the new chunk is left with the
  ends of the old block range, exchanged.
\<close>

lemma tcache_compaction_tcnode_all_vacuumed:
  assumes vac: "list_all row_vacuumed (rows tcs_old)"
    and ret: "tcache_compaction_tcnode S attrs tcs_old = Inr tcs_new"
  shows "rows tcs_new = [] \<and> blkno_min tcs_new = blkno_max tcs_old
       \<and> blkno_max tcs_new = blkno_min tcs_old"
proof -
  from ret obtain t0 t1 t2 where
    c: "tcache_create_column_store S attrs = Inr t0"
    and a: "for_each (assign_toast_buffer (shmem_toast S) tcs_old) [0 ..< ncols tcs_old] t0
              = Inr t1"
    and l: "for_each (compaction_copy_row (shmem_toast S) attrs tcs_old) (rows tcs_old)
              (t1\<lparr>blkno_min := blkno_max tcs_old, blkno_max := blkno_min tcs_old\<rparr>) = Inr t2"
    and e: "tcs_new = t2\<lparr>njunks := 0, is_sorted := is_sorted tcs_old\<rparr>"
    by (auto simp: tcache_compaction_tcnode_def split: sum.splits)
  have "rows t0 = []"
    using c by (auto simp: tcache_create_column_store_def split: if_splits)
  then have r1: "rows t1 = []" using for_each_assign_toast_buffer_fields[OF a] by simp
  have "for_each (compaction_copy_row (shmem_toast S) attrs tcs_old) (rows tcs_old)
              (t1\<lparr>blkno_min := blkno_max tcs_old, blkno_max := blkno_min tcs_old\<rparr>)
        = Inr (t1\<lparr>blkno_min := blkno_max tcs_old, blkno_max := blkno_min tcs_old\<rparr>)"
    by (rule for_each_skip)
       (use vac in \<open>auto simp: list_all_iff row_vacuumed_def compaction_copy_row_def\<close>)
  then have "t2 = t1\<lparr>blkno_min := blkno_max tcs_old, blkno_max := blkno_min tcs_old\<rparr>"
    using l by simp
  then show ?thesis using e r1 by simp
qed

text \<open>Without shared memory for the new chunk the compaction raises the error.\<close>

lemma tcache_compaction_tcnode_out_of_shared_memory:
  "\<not> shmem_alloc_column_store S \<Longrightarrow>
   tcache_compaction_tcnode S attrs tcs_old = Inl OutOfSharedMemory"
  by (simp add: tcache_compaction_tcnode_def tcache_create_column_store_def)

text \<open>
  C7. The claim: the compaction keeps the rows that are not vacuumed and recomputes
  \<open>blkno_min\<close> and \<open>blkno_max\<close> from them; a chunk whose rows are all vacuumed comes out
  with zero rows and \<open>blkno_min\<close> equal to \<open>blkno_max\<close>. The code starts the new range
  with the ends of the old one exchanged, relying on the loop to set both, and the loop
  sets them only for rows it keeps. With shared memory granted, a chunk of one
  four-byte column whose two rows, of the blocks 1 and 5, are both vacuumed (xmax is
  \<open>FrozenTransactionId\<close>) and lie in its range from 1 to 5 is replaced by a chunk with no
  rows whose \<open>blkno_min\<close> is 5 and whose \<open>blkno_max\<close> is 1: the two differ, and the lower
  end lies above the upper end.
\<close>

theorem tcache_compaction_tcnode_empty_range_inverted:
  "tcache_compaction_tcnode shmem_granted int4_column
     \<lparr>rows = [int4_row 1 1 FrozenTransactionId 10, int4_row 5 1 FrozenTransactionId 20],
      njunks = 2, is_sorted = True, blkno_min = 1, blkno_max = 5, cdata_toast = [None]\<rparr>
   = Inr \<lparr>rows = [], njunks = 0, is_sorted = True, blkno_min = 5, blkno_max = 1,
          cdata_toast = [None]\<rparr>
   \<and> row_vacuumed (int4_row 1 1 FrozenTransactionId 10)
   \<and> row_vacuumed (int4_row 5 1 FrozenTransactionId 20)
   \<and> rows_in_range
        \<lparr>rows = [int4_row 1 1 FrozenTransactionId 10, int4_row 5 1 FrozenTransactionId 20],
         njunks = 2, is_sorted = True, blkno_min = 1, blkno_max = 5, cdata_toast = [None]\<rparr>"
  by (simp add: tcache_compaction_tcnode_def tcache_create_column_store_def shmem_granted_def
      int4_column_def int4_row_def ncols_def assign_toast_buffer_def compaction_copy_row_def
      row_vacuumed_def rows_in_range_def row_blkno_def ItemPointerGetBlockNumber_def
      FrozenTransactionId_def FirstNormalTransactionId_def)

subsection \<open>Sort and split\<close>

text \<open>
  Whenever the sort returns, it has only exchanged rows: the chunk holds the same rows
  as before, and the block range and the junk counter are untouched.
\<close>

lemma sort_scan_up_range:
  "sort_scan_up a p li = Some li' \<Longrightarrow> 0 \<le> li' \<and> li' < int (length a)"
proof (induction a p li rule: sort_scan_up.induct)
  case (1 a p li)
  then show ?case
    by (subst (asm) (2) sort_scan_up.simps) (fastforce split: if_splits)
qed

lemma sort_scan_down_range:
  "sort_scan_down a p ri = Some ri' \<Longrightarrow> 0 \<le> ri' \<and> ri' < int (length a)"
proof (induction a p ri rule: sort_scan_down.induct)
  case (1 a p ri)
  then show ?case
    by (subst (asm) (2) sort_scan_down.simps) (fastforce split: if_splits)
qed

lemma mset_row_swap:
  assumes "0 \<le> li" "li < int (length a)" "0 \<le> ri" "ri < int (length a)"
  shows "mset (row_swap a li ri) = mset a"
proof -
  have "nat li < length a" "nat ri < length a" using assms by simp_all
  then show ?thesis unfolding row_swap_def by (simp add: mset_swap)
qed

lemma sort_partition_mset:
  "sort_partition a p li ri = Some (a', li', ri') \<Longrightarrow> mset a' = mset a"
proof (induction a p li ri rule: sort_partition.induct)
  case (1 a p li ri)
  show ?case
  proof (cases "li < ri")
    case False
    then show ?thesis using "1.prems" by (simp add: sort_partition.simps[of a p li ri])
  next
    case True
    from "1.prems" True obtain x y where up: "sort_scan_up a p li = Some x"
      and down: "sort_scan_down a p ri = Some y"
      by (simp add: sort_partition.simps[of a p li ri] split: option.splits)
    show ?thesis
    proof (cases "x < y")
      case lt: True
      have "sort_partition (row_swap a x y) p (x + 1) (y - 1) = Some (a', li', ri')"
        using "1.prems" True up down lt by (simp add: sort_partition.simps[of a p li ri])
      then have "mset a' = mset (row_swap a x y)"
        using "1.IH"(1)[OF True up down lt] by simp
      moreover have "mset (row_swap a x y) = mset a"
        using sort_scan_up_range[OF up] sort_scan_down_range[OF down]
        by (simp add: mset_row_swap)
      ultimately show ?thesis by simp
    next
      case ge: False
      have "sort_partition a p x y = Some (a', li', ri')"
        using "1.prems" True up down ge by (simp add: sort_partition.simps[of a p li ri])
      then show ?thesis using "1.IH"(2)[OF True up down ge] by simp
    qed
  qed
qed

lemma tcache_sort_tcnode_internal_mset:
  assumes "tcache_sort_tcnode_internal a left right = Some a'"
  shows "mset a' = mset a"
proof -
  have step: "mset y = mset x"
    if ih: "\<And>x l r y. f x l r = Some y \<Longrightarrow> mset y = mset x"
      and eq: "(if r \<le> l then Some x
                else case sort_partition x (nat ((l + r) div 2)) l r of
                       None \<Rightarrow> None
                     | Some (a', li, ri) \<Rightarrow>
                         Option.bind (f a' l (li - 1)) (\<lambda>a''. f a'' (ri + 1) r)) = Some y"
    for f :: "'a tc_row list \<Rightarrow> int \<Rightarrow> int \<Rightarrow> 'a tc_row list option" and x l r y
  proof (cases "r \<le> l")
    case True
    then show ?thesis using eq by simp
  next
    case False
    from eq False obtain b li ri where
      part: "sort_partition x (nat ((l + r) div 2)) l r = Some (b, li, ri)"
      by (auto split: option.splits)
    from eq False part obtain c where
      first: "f b l (li - 1) = Some c" and second: "f c (ri + 1) r = Some y"
      by (auto simp: bind_eq_Some_conv)
    have "mset y = mset c" using second by (rule ih)
    also have "mset c = mset b" using first by (rule ih)
    also have "mset b = mset x" using part by (rule sort_partition_mset)
    finally show ?thesis .
  qed
  show ?thesis
    by (rule tcache_sort_tcnode_internal.raw_induct
          [where P = "\<lambda>x l r y. mset y = mset x", OF step assms])
qed

lemma tcache_sort_tcnode_fields:
  assumes "tcache_sort_tcnode tcs = Some tcs1"
  shows "mset (rows tcs1) = mset (rows tcs)" "blkno_min tcs1 = blkno_min tcs"
    "blkno_max tcs1 = blkno_max tcs" "njunks tcs1 = njunks tcs"
  using assms tcache_sort_tcnode_internal_mset
  by (auto simp: tcache_sort_tcnode_def split: option.splits)

text \<open>
  \<open>tcache_alloc_tcnode\<close> never hands out a node: with a free node at hand, or with a
  fresh block of nodes, it stops at the write through the pointer it has cleared. So
  \<open>tcache_split_tcnode\<close>, which begins with this call, never returns a pair of chunks.
\<close>

lemma tcache_alloc_tcnode_no_node:
  "tcache_alloc_tcnode S attrs free_nodes
     = Inl (if free_nodes \<noteq> [] then NullPointerDereference
            else case shmem_alloc_node_block S of
                   None \<Rightarrow> OutOfSharedMemory
                 | Some [] \<Rightarrow> InvalidPointer
                 | Some (node # block) \<Rightarrow> NullPointerDereference)"
  by (cases free_nodes)
     (auto simp: tcache_alloc_tcnode_def memset_pointer_variable_def
           split: option.splits list.splits)

lemma tcache_split_tcnode_no_chunks:
  "\<exists>e. tcache_split_tcnode S attrs free_nodes tcs_old = Inl e"
  by (simp add: tcache_split_tcnode_def tcache_alloc_tcnode_no_node)

text \<open>
  C1. The claim: the split sorts the chunk when it is not sorted and moves exactly the
  trailing run of rows of the highest block to a new chunk, so that every row is in
  exactly one of the two chunks, no row is dropped, and the two block ranges do not
  overlap. Take, with shared memory granted, a chunk of one four-byte column with the
  range from 0 to 3 that is not flagged as sorted and holds four rows, none of them
  vacuumed, at \<open>(3,1)\<close>, \<open>(3,2)\<close>, \<open>(1,1)\<close> and \<open>(0,1)\<close>.

  \<^item> \<open>tcache_split_tcnode\<close> gets no new node: \<open>tcache_alloc_tcnode\<close> writes through the
    pointer it has just cleared, and the split ends there.

  \<^item> The in-place sort returns the rows in the order \<open>(0,1)\<close>, \<open>(3,1)\<close>, \<open>(1,1)\<close>, \<open>(3,2)\<close>
    and flags the chunk as sorted. Its pivot is a pointer to the middle row of the
    array; after the first exchange another row stands there.

  \<^item> Given the empty chunk that \<open>tcache_create_column_store\<close> makes for a new node, the
    rest of the split moves only the row \<open>(3,2)\<close>. The row \<open>(3,1)\<close> of the highest block
    stays in the old chunk, whose range comes out of the compaction as 0 to 3 and
    overlaps the range 3 to 3 of the new chunk.

  \<^item> Rows are dropped even from a chunk that is sorted. Let the four rows stand in
    order, at \<open>(0,1)\<close>, \<open>(1,1)\<close>, \<open>(3,1)\<close> and \<open>(3,2)\<close>, each with the raw xmax 0 of a
    tuple that no transaction has deleted. The rows of block 3 go to the new chunk;
    the compaction that ends the split takes the other two for vacuumed, their xmax
    being below \<open>FirstNormalTransactionId\<close>, and the old chunk is left without rows.
\<close>

theorem tcache_split_tcnode_breaks_partition:
  "tcache_split_tcnode shmem_granted int4_column [4096]
     \<lparr>rows = [int4_row 3 1 100 10, int4_row 3 2 100 20, int4_row 1 1 100 30,
              int4_row 0 1 100 40],
      njunks = 0, is_sorted = False, blkno_min = 0, blkno_max = 3, cdata_toast = [None]\<rparr>
   = Inl NullPointerDereference
   \<and> tcache_sort_tcnode
     \<lparr>rows = [int4_row 3 1 100 10, int4_row 3 2 100 20, int4_row 1 1 100 30,
              int4_row 0 1 100 40],
      njunks = 0, is_sorted = False, blkno_min = 0, blkno_max = 3, cdata_toast = [None]\<rparr>
   = Some
     \<lparr>rows = [int4_row 0 1 100 40, int4_row 3 1 100 10, int4_row 1 1 100 30,
              int4_row 3 2 100 20],
      njunks = 0, is_sorted = True, blkno_min = 0, blkno_max = 3, cdata_toast = [None]\<rparr>
   \<and> tcache_create_column_store shmem_granted int4_column
   = Inr \<lparr>rows = [], njunks = 0, is_sorted = False, blkno_min = 0, blkno_max = 0,
          cdata_toast = [None]\<rparr>
   \<and> split_move_rows shmem_granted int4_column
     \<lparr>rows = [int4_row 3 1 100 10, int4_row 3 2 100 20, int4_row 1 1 100 30,
              int4_row 0 1 100 40],
      njunks = 0, is_sorted = False, blkno_min = 0, blkno_max = 3, cdata_toast = [None]\<rparr>
     \<lparr>rows = [], njunks = 0, is_sorted = False, blkno_min = 0, blkno_max = 0,
      cdata_toast = [None]\<rparr>
   = Inr (\<lparr>rows = [int4_row 0 1 100 40, int4_row 3 1 100 10, int4_row 1 1 100 30],
           njunks = 0, is_sorted = True, blkno_min = 0, blkno_max = 3,
           cdata_toast = [None]\<rparr>,
          \<lparr>rows = [int4_row 3 2 100 20],
           njunks = 0, is_sorted = True, blkno_min = 3, blkno_max = 3,
           cdata_toast = [None]\<rparr>)
   \<and> split_move_rows shmem_granted int4_column
     \<lparr>rows = [int4_row 0 1 0 40, int4_row 1 1 0 30, int4_row 3 1 0 10, int4_row 3 2 0 20],
      njunks = 0, is_sorted = True, blkno_min = 0, blkno_max = 3, cdata_toast = [None]\<rparr>
     \<lparr>rows = [], njunks = 0, is_sorted = False, blkno_min = 0, blkno_max = 0,
      cdata_toast = [None]\<rparr>
   = Inr (\<lparr>rows = [], njunks = 0, is_sorted = True, blkno_min = 1, blkno_max = 0,
           cdata_toast = [None]\<rparr>,
          \<lparr>rows = [int4_row 3 1 0 10, int4_row 3 2 0 20],
           njunks = 0, is_sorted = True, blkno_min = 3, blkno_max = 3,
           cdata_toast = [None]\<rparr>)"
proof -
  let ?tcs = "\<lparr>rows = [int4_row 3 1 100 10, int4_row 3 2 100 20, int4_row 1 1 100 30,
                       int4_row 0 1 100 40],
               njunks = 0, is_sorted = False, blkno_min = 0, blkno_max = 3,
               cdata_toast = [None]\<rparr>"
  have split: "tcache_split_tcnode shmem_granted int4_column [4096] ?tcs
                 = Inl NullPointerDereference"
    by (simp add: tcache_split_tcnode_def tcache_alloc_tcnode_def memset_pointer_variable_def)
  have sort: "tcache_sort_tcnode ?tcs
     = Some
     \<lparr>rows = [int4_row 0 1 100 40, int4_row 3 1 100 10, int4_row 1 1 100 30,
              int4_row 3 2 100 20],
      njunks = 0, is_sorted = True, blkno_min = 0, blkno_max = 3, cdata_toast = [None]\<rparr>"
    by code_simp
  have create: "tcache_create_column_store shmem_granted int4_column
     = Inr \<lparr>rows = [], njunks = 0, is_sorted = False, blkno_min = 0, blkno_max = 0,
          cdata_toast = [None]\<rparr>"
    by (simp add: tcache_create_column_store_def shmem_granted_def int4_column_def)
  have move: "split_move_rows shmem_granted int4_column ?tcs
     \<lparr>rows = [], njunks = 0, is_sorted = False, blkno_min = 0, blkno_max = 0,
      cdata_toast = [None]\<rparr>
   = Inr (\<lparr>rows = [int4_row 0 1 100 40, int4_row 3 1 100 10, int4_row 1 1 100 30],
           njunks = 0, is_sorted = True, blkno_min = 0, blkno_max = 3,
           cdata_toast = [None]\<rparr>,
          \<lparr>rows = [int4_row 3 2 100 20],
           njunks = 0, is_sorted = True, blkno_min = 3, blkno_max = 3,
           cdata_toast = [None]\<rparr>)"
    by code_simp
  have drop: "split_move_rows shmem_granted int4_column
     \<lparr>rows = [int4_row 0 1 0 40, int4_row 1 1 0 30, int4_row 3 1 0 10, int4_row 3 2 0 20],
      njunks = 0, is_sorted = True, blkno_min = 0, blkno_max = 3, cdata_toast = [None]\<rparr>
     \<lparr>rows = [], njunks = 0, is_sorted = False, blkno_min = 0, blkno_max = 0,
      cdata_toast = [None]\<rparr>
   = Inr (\<lparr>rows = [], njunks = 0, is_sorted = True, blkno_min = 1, blkno_max = 0,
           cdata_toast = [None]\<rparr>,
          \<lparr>rows = [int4_row 3 1 0 10, int4_row 3 2 0 20],
           njunks = 0, is_sorted = True, blkno_min = 3, blkno_max = 3,
           cdata_toast = [None]\<rparr>)"
    by code_simp
  show ?thesis
    using split sort create move drop by (simp only: simp_thms)
qed

subsection \<open>Toast buffers\<close>

text \<open>Without room for the aligned value, the value is copied into the buffer as it is.\<close>

lemma do_insert_tuple_varlena_no_room:
  "\<not> tbuf_usage tbuf + MAXALIGN (length datum) < tbuf_length tbuf \<Longrightarrow>
   do_insert_tuple_varlena P tbuf datum = toast_copy_in tbuf datum"
  by (simp add: do_insert_tuple_varlena_def Let_def)

text \<open>
  C5. The claim: the buffer is replaced by a larger duplicate exactly when the room
  left is not enough for the aligned value, and the value always fits when it is copied
  in. The code tests \<open>tbuf_usage + MAXALIGN(vsize) < tbuf_length\<close> and replaces the
  buffer when that holds, that is, when there is room. With a buffer of 128 bytes of
  which 120 are used and a value of 16 bytes, \<open>do_insert_tuple\<close> keeps the buffer and
  copies past its end, the asserted condition is false at the copy, and
  \<open>tcache_copy_cs_varlena\<close> does the same; with 24 of 128 bytes used, the buffer is
  replaced by one of 256 bytes although the value fits.
\<close>

theorem do_insert_tuple_varlena_grows_when_room:
  "do_insert_tuple_varlena
     \<lparr>shmem_alloc_alap = Some, TCACHE_TOASTBUF_INITSIZE = 64, toastbuf_data_offset = 24\<rparr>
     \<lparr>tbuf_length = 128, tbuf_usage = 120, tbuf_junk = 0, tbuf_data = [(24, replicate 96 0)]\<rparr>
     (replicate 16 7)
   = Inl BufferOverrun
   \<and> \<not> toast_room_asserted
        \<lparr>tbuf_length = 128, tbuf_usage = 120, tbuf_junk = 0, tbuf_data = [(24, replicate 96 0)]\<rparr>
        16
   \<and> tcache_copy_cs_varlena
     \<lparr>shmem_alloc_alap = Some, TCACHE_TOASTBUF_INITSIZE = 64, toastbuf_data_offset = 24\<rparr>
     \<lparr>tbuf_length = 128, tbuf_usage = 120, tbuf_junk = 0, tbuf_data = [(24, replicate 96 0)]\<rparr>
     \<lparr>tbuf_length = 128, tbuf_usage = 40, tbuf_junk = 0, tbuf_data = [(24, replicate 16 7)]\<rparr>
     [24]
   = Inl BufferOverrun
   \<and> do_insert_tuple_varlena
     \<lparr>shmem_alloc_alap = Some, TCACHE_TOASTBUF_INITSIZE = 64, toastbuf_data_offset = 24\<rparr>
     \<lparr>tbuf_length = 128, tbuf_usage = 24, tbuf_junk = 0, tbuf_data = []\<rparr>
     (replicate 16 7)
   = Inr (24, \<lparr>tbuf_length = 256, tbuf_usage = 40, tbuf_junk = 0,
                tbuf_data = [(24, replicate 16 7)]\<rparr>)"
  by (simp add: do_insert_tuple_varlena_def toast_copy_in_def toast_room_asserted_def
      tcache_create_toast_buffer_def tcache_duplicate_toast_buffer_def toast_used_prefix_def
      MAXALIGN_def Let_def)

subsection \<open>Abort of a build\<close>

text \<open>
  Neither the end of a scan whose heap scan is open nor a rescan changes the state of
  the head.
\<close>

lemma tcache_put_tchead_state:
  "tcache_put_tchead tc_head = Inr (Some tc_head') \<Longrightarrow> state tc_head' = state tc_head"
  by (auto simp: tcache_put_tchead_def split: if_splits sum.splits)

lemma tcache_end_scan_open_heapscan_state:
  "heapscan tc_scan \<Longrightarrow> tcache_end_scan tc_scan tc_head = Inr (Some tc_head') \<Longrightarrow>
   state tc_head' = state tc_head"
  by (auto simp: tcache_end_scan_def split: sum.splits prod.splits
      dest!: tcache_put_tchead_state)

lemma tcache_rescan_state:
  "tcache_rescan tc_scan tc_head = Inr (tc_head', tc_scan') \<Longrightarrow> state tc_head' = state tc_head"
  by (auto simp: tcache_rescan_def split: if_splits sum.splits prod.splits)

text \<open>
  C4. The claim: when a build is aborted (\<open>tcache_end_scan\<close> with the heap scan still
  open, or \<open>tcache_rescan\<close> in state \<open>NOW_BUILD\<close>) the nodes are released and the state
  goes back to \<open>NOT_BUILT\<close>, so that the next scan rebuilds. The code releases the
  nodes and leaves the state alone. For a head in state \<open>NOW_BUILD\<close> that a second
  backend has looked up as well (reference counter 2), with two nodes in the tree:
  after \<open>tcache_end_scan\<close>, and after \<open>tcache_rescan\<close>, both nodes are on the free list
  without a chunk and the state is still \<open>NOW_BUILD\<close>; the next \<open>tcache_begin_scan\<close>
  on that head opens no heap scan and leaves the state \<open>NOW_BUILD\<close>.
\<close>

theorem tcache_end_scan_keeps_now_build:
  "tcache_end_scan \<lparr>heapscan = True\<rparr>
     \<lparr>state = TCACHE_STATE_NOW_BUILD, refcnt = 2,
      tcs_root = TcNode 1 TcNull (Some (chunk_of_block 1))
                   (TcNode 2 TcNull (Some (chunk_of_block 2)) TcNull),
      free_list = []\<rparr>
   = Inr (Some \<lparr>state = TCACHE_STATE_NOW_BUILD, refcnt = 1,
                 tcs_root = TcNode 1 TcNull None (TcNode 2 TcNull None TcNull),
                 free_list = [1, 2]\<rparr>)
   \<and> tcache_rescan \<lparr>heapscan = True\<rparr>
     \<lparr>state = TCACHE_STATE_NOW_BUILD, refcnt = 2,
      tcs_root = TcNode 1 TcNull (Some (chunk_of_block 1))
                   (TcNode 2 TcNull (Some (chunk_of_block 2)) TcNull),
      free_list = []\<rparr>
   = Inr (\<lparr>state = TCACHE_STATE_NOW_BUILD, refcnt = 2,
           tcs_root = TcNode 1 TcNull None (TcNode 2 TcNull None TcNull),
           free_list = [1, 2]\<rparr>, \<lparr>heapscan = True\<rparr>)
   \<and> tcache_begin_scan
     \<lparr>state = TCACHE_STATE_NOW_BUILD, refcnt = 2,
      tcs_root = TcNode 1 TcNull None (TcNode 2 TcNull None TcNull) :: unit tcache_node,
      free_list = [1, 2]\<rparr>
   = (\<lparr>state = TCACHE_STATE_NOW_BUILD, refcnt = 2,
       tcs_root = TcNode 1 TcNull None (TcNode 2 TcNull None TcNull),
       free_list = [1, 2]\<rparr>, \<lparr>heapscan = False\<rparr>)"
  by (simp add: tcache_end_scan_def tcache_rescan_def tcache_begin_scan_def
      tcache_put_tchead_def)

subsection \<open>Vacuum of a row store\<close>

text \<open>Every page below \<open>blkno_max\<close> leaves the row store as it is.\<close>

lemma do_vacuum_row_store_below_blkno_max:
  "blknum < trs_blkno_max trs \<Longrightarrow> do_vacuum_row_store trs blknum page = Some trs"
  by (simp add: do_vacuum_row_store_def)

text \<open>
  C10. The claim: the vacuum of a page is applied to a row store exactly when the
  page's block lies within \<open>[blkno_min, blkno_max]\<close> of the row store. The code returns
  at once when \<open>blknum < blkno_min\<close> or \<open>blkno_max > blknum\<close>. For a row store over
  blocks 1 to 5 with a row at (3, 1) and a row at (5, 2), and a page all of whose line
  pointers are dead: the page of block 3 leaves the row store as it is, the row at
  (3, 1) included; the page of block 5 sets the offset of the row at (5, 2) to zero.
\<close>

theorem do_vacuum_row_store_skips_inner_block:
  "do_vacuum_row_store
     \<lparr>trs_blkno_min = 1, trs_blkno_max = 5,
      trs_tuples = [(100, \<lparr>t_self = (3, 1)\<rparr>), (200, \<lparr>t_self = (5, 2)\<rparr>)]\<rparr>
     3 (\<lambda>offnum. \<lparr>lp_off = 0, lp_flags = LP_DEAD\<rparr>)
   = Some \<lparr>trs_blkno_min = 1, trs_blkno_max = 5,
           trs_tuples = [(100, \<lparr>t_self = (3, 1)\<rparr>), (200, \<lparr>t_self = (5, 2)\<rparr>)]\<rparr>
   \<and> do_vacuum_row_store
     \<lparr>trs_blkno_min = 1, trs_blkno_max = 5,
      trs_tuples = [(100, \<lparr>t_self = (3, 1)\<rparr>), (200, \<lparr>t_self = (5, 2)\<rparr>)]\<rparr>
     5 (\<lambda>offnum. \<lparr>lp_off = 0, lp_flags = LP_DEAD\<rparr>)
   = Some \<lparr>trs_blkno_min = 1, trs_blkno_max = 5,
           trs_tuples = [(100, \<lparr>t_self = (3, 1)\<rparr>), (0, \<lparr>t_self = (5, 2)\<rparr>)]\<rparr>"
  by (simp add: do_vacuum_row_store_def kern_rowstore_get_tuple_def follow_redirect.simps
      ItemPointerGetBlockNumber_def ItemPointerGetOffsetNumber_def Let_def)

subsection \<open>The shared memory allocator\<close>

text \<open>The allocator hands back NULL only when the free list is empty.\<close>

lemma shmem_alloc_loop_NULL:
  "shmem_alloc_loop mg required fl block st = Inr (None, st') \<Longrightarrow> fl = [] \<and> block = None"
proof (induction fl arbitrary: block)
  case Nil
  then show ?case by simp
next
  case (Cons cur rest)
  from Cons.prems obtain b where b: "blocks st cur = Some b"
    by (auto split: option.splits)
  show ?case
  proof (cases "size_blk b < required")
    case True
    then have "shmem_alloc_loop mg required rest (Some cur) st = Inr (None, st')"
      using Cons.prems b by simp
    then have "Some cur = None" using Cons.IH by blast
    then show ?thesis by simp
  next
    case False
    then show ?thesis using Cons.prems b by (simp split: if_splits)
  qed
qed

lemma pgstrom_shmem_alloc_NULL:
  "pgstrom_shmem_alloc my_pid my_owner mg sz st = Inr (None, st') \<Longrightarrow> free_head st = []"
proof -
  assume a: "pgstrom_shmem_alloc my_pid my_owner mg sz st = Inr (None, st')"
  then have "shmem_alloc_loop mg (shmem_required sz) (free_head st) None st = Inr (None, st')"
    by (auto simp: pgstrom_shmem_alloc_def split: sum.splits option.splits prod.splits)
  then show ?thesis using shmem_alloc_loop_NULL by blast
qed

text \<open>
  C6. The claim: \<open>pgstrom_shmem_alloc\<close> returns NULL exactly when no free block is
  large enough. The loop variable \<open>block\<close> keeps the last free block visited when no
  block fits, and that is what the function returns. With one free block of 64 bytes
  at address 1000 and a request for 1000 bytes (1072 bytes required): the result is
  the address 1000, not NULL; the block is still on the free list, still tagged free
  and still 64 bytes long, and carries the caller's pid and the overrun mark.
\<close>

theorem pgstrom_shmem_alloc_returns_small_block:
  "size_blk \<lparr>magic = SHMEM_BLOCK_FREE, size_blk = 64, pid = 0, owner = 0, overrun_marker = 0\<rparr>
     < shmem_required 1000
   \<and> (case pgstrom_shmem_alloc 7 9 SHMEM_BLOCK_STROM_QUEUE 1000
           \<lparr>free_size = 64, addr_head = [1000], free_head = [1000],
            blocks = [1000 \<mapsto> \<lparr>magic = SHMEM_BLOCK_FREE, size_blk = 64, pid = 0, owner = 0,
                                 overrun_marker = 0\<rparr>]\<rparr> of
        Inl e \<Rightarrow> None
      | Inr (block, st) \<Rightarrow> Some (block, free_head st, free_size st, blocks st 1000))
     = Some (Some 1000, [1000], 64,
             Some \<lparr>magic = SHMEM_BLOCK_FREE, size_blk = 64, pid = 7, owner = 9,
                   overrun_marker = SHMEM_BLOCK_OVERRUN_MARK\<rparr>)"
  by (simp add: pgstrom_shmem_alloc_def shmem_required_def MAXALIGN_def
      ShmemBlock_data_offset_def)

subsection \<open>The message queue\<close>

lemma queue_step_keeps_shutdown:
  "is_shutdown q \<Longrightarrow> is_shutdown (fst (queue_step c q))"
  by (cases c)
     (auto simp: pgstrom_queue_enqueue_def dequeue_before_wait_def dequeue_after_wait_def
        pgstrom_queue_try_dequeue_def pgstrom_queue_is_empty_def pgstrom_queue_shutdown_def
        split: list.splits)

lemma queue_run_keeps_shutdown:
  "is_shutdown q \<Longrightarrow> is_shutdown (fst (queue_run cs q))"
proof (induction cs arbitrary: q)
  case Nil
  then show ?case by simp
next
  case (Cons c cs)
  have "is_shutdown (fst (queue_step c q))"
    using Cons.prems by (rule queue_step_keeps_shutdown)
  then have "is_shutdown (fst (queue_run cs (fst (queue_step c q))))"
    by (rule Cons.IH)
  then show ?case by (simp add: case_prod_beta Let_def)
qed

text \<open>
  C9 (as amended). \<open>pgstrom_queue_shutdown\<close> sets the flag and does nothing to the
  condition variable. Once the flag is set, it stays set through every run of steps of
  the queue functions, and an enqueue after such a run returns false, leaves the list
  of items as it is and signals the condition variable once.
\<close>

theorem pgstrom_queue_shutdown_one_way:
  "is_shutdown (fst (pgstrom_queue_shutdown q))
   \<and> snd (pgstrom_queue_shutdown q) = []
   \<and> is_shutdown (fst (queue_run cs (fst (pgstrom_queue_shutdown q))))
   \<and> pgstrom_queue_enqueue (fst (queue_run cs (fst (pgstrom_queue_shutdown q)))) x
       = (False, fst (queue_run cs (fst (pgstrom_queue_shutdown q))), [COND_SIGNAL])"
proof -
  have a: "is_shutdown (fst (pgstrom_queue_shutdown q))"
    by (simp add: pgstrom_queue_shutdown_def)
  have b: "snd (pgstrom_queue_shutdown q) = []"
    by (simp add: pgstrom_queue_shutdown_def)
  have c: "is_shutdown (fst (queue_run cs (fst (pgstrom_queue_shutdown q))))"
    using a by (rule queue_run_keeps_shutdown)
  have d: "pgstrom_queue_enqueue (fst (queue_run cs (fst (pgstrom_queue_shutdown q)))) x
       = (False, fst (queue_run cs (fst (pgstrom_queue_shutdown q))), [COND_SIGNAL])"
    using c by (simp add: pgstrom_queue_enqueue_def)
  show ?thesis using a b c d by simp
qed

text \<open>
  C9 as stated fails in its last part: the shutdown of a queue emits no broadcast (and
  no signal) on the condition variable, so a dequeue that waits is not woken by it.
\<close>

theorem pgstrom_queue_shutdown_no_broadcast_counterexample:
  "COND_BROADCAST \<notin> set (snd (pgstrom_queue_shutdown \<lparr>qhead = [], is_shutdown = False\<rparr>))
   \<and> snd (pgstrom_queue_shutdown \<lparr>qhead = ([] :: nat list), is_shutdown = False\<rparr>) = []"
  by (simp add: pgstrom_queue_shutdown_def)

end
